theory Spec2Isabelle
  imports Complex_Main
begin

section \<open>ZeroGLA: the random-perturbation gradient estimator\<close>

text \<open>
  A shallow embedding of \<^verbatim>\<open>src/zoo_attack/random_gradient_estimator.py\<close>.
  Tensors are flat lists of reals together with a shape; arithmetic is exact (the reals),
  so nothing here speaks about floating-point rounding.  Every function that mutates
  parameters takes the estimator and returns it updated; a raise is the \<open>Inl\<close> branch of
  the returned outcome, next to the state reached when it was raised.  In-place updates
  of parameters act as they do under \<^verbatim>\<open>torch.no_grad()\<close>; the bookkeeping of
  automatic differentiation is not part of the model.  \<^verbatim>\<open>compute_grad_with_graph\<close>,
  which keeps the graph of the inputs, is left out.
\<close>

subsection \<open>Errors\<close>

datatype error =
    AssertionError
  | Exception string
  | RuntimeError
  | TypeError
  | UnboundLocalError
  | ZeroDivisionError

subsection \<open>Parameters and the estimator object\<close>

text \<open>
  A \<^verbatim>\<open>torch.nn.Parameter\<close>: its shape, its elements in row-major order and its
  gradient slot (\<^verbatim>\<open>p.grad\<close>, \<^verbatim>\<open>None\<close> or a tensor).
\<close>

record param =
  requires_grad :: bool
  shape :: "nat list"
  data :: "real list"
  grad :: "real list option"

definition numel :: "param \<Rightarrow> nat" where
  "numel p = prod_list (shape p)"

datatype RandomGradEstimateMethod = rge_central | rge_forward

text \<open>The \<^verbatim>\<open>.value\<close> of an enumeration member.\<close>

fun method_value :: "RandomGradEstimateMethod \<Rightarrow> string" where
  "method_value rge_central = ''rge-central''"
| "method_value rge_forward = ''rge-forward''"

text \<open>
  The constructor's argument \<^verbatim>\<open>grad_estimate_method: RandomGradEstimateMethod | str\<close>:
  \<^verbatim>\<open>isinstance\<close> tells the two apart.
\<close>

datatype method_arg = Member RandomGradEstimateMethod | Str string

text \<open>
  The fields \<^verbatim>\<open>__init__\<close> sets.  \<^verbatim>\<open>device\<close> and \<^verbatim>\<open>torch_dtype\<close> are only handed
  on to torch and are left out.  \<^verbatim>\<open>num_pert\<close> is only used as \<^verbatim>\<open>range(num_pert)\<close>
  and as a divisor after at least one iteration, so it is a natural number here.
\<close>

record estimator =
  parameters_list :: "param list"
  total_dimensions :: nat
  mu :: real
  num_pert :: nat
  grad_estimate_method :: RandomGradEstimateMethod
  paramwise_perturb :: bool
  sgd_only_no_optim :: bool
  normalize_perturbation :: bool

text \<open>\<^verbatim>\<open>RandomGradientEstimator.__init__\<close> (lines 16-53).\<close>

definition init ::
  "param list \<Rightarrow> real \<Rightarrow> nat \<Rightarrow> method_arg \<Rightarrow> bool \<Rightarrow> bool \<Rightarrow> bool \<Rightarrow> error + estimator" where
  "init parameters mu0 num_pert0 grad_estimate_method0 normalize_perturbation0
        paramwise_perturb0 sgd_only_no_optim0 =
    (let pl = filter requires_grad parameters;
         td = sum_list (map numel pl)
     in case (case grad_estimate_method0 of
                Member m \<Rightarrow> Inr m
              | Str s \<Rightarrow>
                  if s = method_value rge_central then Inr rge_central
                  else if s = method_value rge_forward then Inr rge_forward
                  else Inl (Exception ''Grad estimate method has to be rge-central or rge-forward''))
        of Inl e \<Rightarrow> Inl e
         | Inr m \<Rightarrow>
             if paramwise_perturb0 \<and> normalize_perturbation0 \<noteq> False then Inl AssertionError
             else if sgd_only_no_optim0 \<and> \<not> paramwise_perturb0 then Inl AssertionError
             else Inr \<lparr> parameters_list = pl, total_dimensions = td, mu = mu0,
                        num_pert = num_pert0, grad_estimate_method = m,
                        paramwise_perturb = paramwise_perturb0,
                        sgd_only_no_optim = sgd_only_no_optim0,
                        normalize_perturbation = normalize_perturbation0 \<rparr>)"

text \<open>
  What the spec calls a valid configuration: a known method, not paramwise together with
  normalisation, and the raw-SGD path only together with paramwise.
\<close>

definition valid_method :: "method_arg \<Rightarrow> bool" where
  "valid_method a =
     (case a of Member m \<Rightarrow> True | Str s \<Rightarrow> s = ''rge-central'' \<or> s = ''rge-forward'')"

definition valid_config :: "method_arg \<Rightarrow> bool \<Rightarrow> bool \<Rightarrow> bool \<Rightarrow> bool" where
  "valid_config a nrm pw so =
     (valid_method a \<and> \<not> (pw \<and> nrm) \<and> \<not> (so \<and> \<not> pw))"

fun is_error :: "error + 'a \<Rightarrow> bool" where
  "is_error (Inl e) = True"
| "is_error (Inr v) = False"

subsection \<open>The randomness source\<close>

text \<open>
  \<^verbatim>\<open>torch.Generator\<close> and \<^verbatim>\<open>torch.randn\<close> are library code, so they are parameters
  of the model: \<open>manual_seed\<close> builds a generator state from a key,
  \<open>sample g shp k\<close> is element \<open>k\<close> (row-major) of the tensor of shape \<open>shp\<close> drawn
  from state \<open>g\<close>, and \<open>advance g shp\<close> is the state after that draw.  Nothing is
  assumed about how a draw of one shape relates to draws of other shapes.
\<close>

record 'g torch_rng =
  manual_seed :: "int \<Rightarrow> 'g"
  sample :: "'g \<Rightarrow> nat list \<Rightarrow> nat \<Rightarrow> real"
  advance :: "'g \<Rightarrow> nat list \<Rightarrow> 'g"

text \<open>\<^verbatim>\<open>torch.randn(*shp, generator=g)\<close>: the drawn elements and the advanced generator.\<close>

definition randn :: "'g torch_rng \<Rightarrow> nat list \<Rightarrow> 'g \<Rightarrow> real list \<times> 'g" where
  "randn T shp g = (map (sample T g shp) [0..<prod_list shp], advance T g shp)"

text \<open>\<^verbatim>\<open>get_rng\<close> (lines 55-58).\<close>

definition get_rng :: "'g torch_rng \<Rightarrow> int \<Rightarrow> int \<Rightarrow> 'g" where
  "get_rng T seed perturb_index = manual_seed T (seed * (perturb_index + 17) + perturb_index)"

text \<open>\<^verbatim>\<open>torch.norm\<close> of a flat tensor.\<close>

definition norm2 :: "real list \<Rightarrow> real" where
  "norm2 p = sqrt (sum_list (map (\<lambda>x. x * x) p))"

text \<open>
  The square root of a real number cannot be computed, so \<open>norm2\<close> is left without a code
  equation: everything else evaluates, on estimators without normalisation.
\<close>

declare norm2_def [code del]

text \<open>
  \<^verbatim>\<open>generate_perturbation_norm\<close> (lines 60-68).  The generator is advanced in place;
  the model returns its new state with the draw.
\<close>

definition generate_perturbation_norm ::
  "'g torch_rng \<Rightarrow> estimator \<Rightarrow> 'g \<Rightarrow> real list \<times> 'g" where
  "generate_perturbation_norm T est rng =
     (case randn T [total_dimensions est] rng of
        (p, rng') \<Rightarrow>
          if normalize_perturbation est then (map (\<lambda>x. x / norm2 p) p, rng') else (p, rng'))"

subsection \<open>Tensor operations\<close>

text \<open>\<^verbatim>\<open>t[a:b]\<close> for \<open>a \<le> b\<close>: Python clamps the slice to the tensor.\<close>

definition slice :: "real list \<Rightarrow> nat \<Rightarrow> nat \<Rightarrow> real list" where
  "slice t a b = take (b - a) (drop a t)"

text \<open>\<^verbatim>\<open>t.view(shp)\<close> raises when the element counts differ.\<close>

definition view :: "real list \<Rightarrow> nat list \<Rightarrow> error + real list" where
  "view t shp = (if length t = prod_list shp then Inr t else Inl RuntimeError)"

text \<open>Elementwise \<open>a + alpha * b\<close> (\<^verbatim>\<open>a.add_(b, alpha=alpha)\<close>) and \<open>alpha * a\<close>.\<close>

definition axpy :: "real \<Rightarrow> real list \<Rightarrow> real list \<Rightarrow> real list" where
  "axpy alpha b a = map2 (\<lambda>x y. x + alpha * y) a b"

definition scale :: "real \<Rightarrow> real list \<Rightarrow> real list" where
  "scale alpha a = map (\<lambda>x. alpha * x) a"

subsection \<open>Applying a perturbation\<close>

text \<open>
  \<^verbatim>\<open>perturb_model\<close> (lines 71-80): the loop over \<^verbatim>\<open>parameters_list\<close> with its
  running offset \<^verbatim>\<open>start\<close>.  A raise leaves the parameters before it updated.
\<close>

fun perturb_model_loop ::
  "real list option \<Rightarrow> real \<Rightarrow> nat \<Rightarrow> param list \<Rightarrow> (error + unit) \<times> param list" where
  "perturb_model_loop perturb alpha start [] = (Inr (), [])"
| "perturb_model_loop perturb alpha start (p # ps) =
     (case perturb of
        Some pb \<Rightarrow>
          (case view (slice pb start (start + numel p)) (shape p) of
             Inl e \<Rightarrow> (Inl e, p # ps)
           | Inr v \<Rightarrow>
               (case perturb_model_loop perturb alpha (start + numel p) ps of
                  (r, ps') \<Rightarrow> (r, p\<lparr>data := axpy alpha v (data p)\<rparr> # ps')))
      | None \<Rightarrow>
          (case perturb_model_loop perturb alpha (start + numel p) ps of
             (r, ps') \<Rightarrow>
               (r, (if alpha \<noteq> 1 then p\<lparr>data := scale alpha (data p)\<rparr> else p) # ps')))"

definition perturb_model ::
  "estimator \<Rightarrow> real list option \<Rightarrow> real \<Rightarrow> (error + unit) \<times> estimator" where
  "perturb_model est perturb alpha =
     (case perturb_model_loop perturb alpha 0 (parameters_list est) of
        (r, ps') \<Rightarrow> (r, est\<lparr>parameters_list := ps'\<rparr>))"

text \<open>
  \<^verbatim>\<open>perturb_model_paramwise\<close> (lines 239-245): one draw per parameter, in list order,
  from the one generator.
\<close>

fun perturb_model_paramwise_loop ::
  "'g torch_rng \<Rightarrow> real \<Rightarrow> 'g \<Rightarrow> param list \<Rightarrow> param list \<times> 'g" where
  "perturb_model_paramwise_loop T alpha rng [] = ([], rng)"
| "perturb_model_paramwise_loop T alpha rng (p # ps) =
     (case randn T (shape p) rng of
        (perturb, rng') \<Rightarrow>
          (case perturb_model_paramwise_loop T alpha rng' ps of
             (ps', rng'') \<Rightarrow> (p\<lparr>data := axpy alpha perturb (data p)\<rparr> # ps', rng'')))"

definition perturb_model_paramwise ::
  "'g torch_rng \<Rightarrow> estimator \<Rightarrow> 'g \<Rightarrow> real \<Rightarrow> estimator \<times> 'g" where
  "perturb_model_paramwise T est rng alpha =
     (case perturb_model_paramwise_loop T alpha rng (parameters_list est) of
        (ps', rng') \<Rightarrow> (est\<lparr>parameters_list := ps'\<rparr>, rng'))"

subsection \<open>Gradient injection\<close>

text \<open>\<^verbatim>\<open>put_grad\<close> (lines 82-86).\<close>

fun put_grad_loop :: "real list \<Rightarrow> nat \<Rightarrow> param list \<Rightarrow> (error + unit) \<times> param list" where
  "put_grad_loop g start [] = (Inr (), [])"
| "put_grad_loop g start (p # ps) =
     (case view (slice g start (start + numel p)) (shape p) of
        Inl e \<Rightarrow> (Inl e, p # ps)
      | Inr v \<Rightarrow>
          (case put_grad_loop g (start + numel p) ps of
             (r, ps') \<Rightarrow> (r, p\<lparr>grad := Some v\<rparr> # ps')))"

definition put_grad :: "estimator \<Rightarrow> real list \<Rightarrow> (error + unit) \<times> estimator" where
  "put_grad est g =
     (case put_grad_loop g 0 (parameters_list est) of
        (r, ps') \<Rightarrow> (r, est\<lparr>parameters_list := ps'\<rparr>))"

text \<open>
  \<^verbatim>\<open>generate_then_put_grad\<close> (lines 88-99): the loop over \<^verbatim>\<open>enumerate(dir_grads)\<close>
  with the local \<^verbatim>\<open>update_grad\<close>, then the assertion and \<^verbatim>\<open>put_grad\<close>.
\<close>

fun generate_update_grad ::
  "'g torch_rng \<Rightarrow> estimator \<Rightarrow> int \<Rightarrow> nat \<Rightarrow> real list option \<Rightarrow> (nat \<times> real) list
     \<Rightarrow> real list option" where
  "generate_update_grad T est seed n update_grad [] = update_grad"
| "generate_update_grad T est seed n update_grad ((i, dir_grad) # rest) =
     (let rng = get_rng T seed (int i);
          update = scale (dir_grad / real n) (fst (generate_perturbation_norm T est rng))
      in generate_update_grad T est seed n
           (case update_grad of None \<Rightarrow> Some update | Some u \<Rightarrow> Some (axpy 1 update u))
           rest)"

definition generate_then_put_grad ::
  "'g torch_rng \<Rightarrow> estimator \<Rightarrow> int \<Rightarrow> real list \<Rightarrow> (error + unit) \<times> estimator" where
  "generate_then_put_grad T est seed dir_grads =
     (case generate_update_grad T est seed (length dir_grads) None (enumerate 0 dir_grads) of
        None \<Rightarrow> (Inl AssertionError, est)
      | Some update_grad \<Rightarrow> put_grad est update_grad)"

text \<open>
  \<^verbatim>\<open>generate_then_put_grad_paramwise\<close> (lines 225-237).  The inner loop over the
  parameters for one direction; \<^verbatim>\<open>param.grad += ...\<close> on an empty slot is a
  \<^verbatim>\<open>TypeError\<close>.
\<close>

fun put_grad_paramwise_loop ::
  "'g torch_rng \<Rightarrow> nat \<Rightarrow> real \<Rightarrow> 'g \<Rightarrow> param list \<Rightarrow> (error + unit) \<times> param list" where
  "put_grad_paramwise_loop T i c rng [] = (Inr (), [])"
| "put_grad_paramwise_loop T i c rng (p # ps) =
     (case randn T (shape p) rng of
        (perturb, rng') \<Rightarrow>
          (case (if i = 0 then Inr (scale c perturb)
                 else (case grad p of
                         None \<Rightarrow> Inl TypeError
                       | Some g \<Rightarrow> Inr (axpy 1 (scale c perturb) g)))
           of Inl e \<Rightarrow> (Inl e, p # ps)
            | Inr g' \<Rightarrow>
                (case put_grad_paramwise_loop T i c rng' ps of
                   (r, ps') \<Rightarrow> (r, p\<lparr>grad := Some g'\<rparr> # ps'))))"

fun generate_then_put_grad_paramwise_loop ::
  "'g torch_rng \<Rightarrow> int \<Rightarrow> nat \<Rightarrow> (nat \<times> real) list \<Rightarrow> param list
     \<Rightarrow> (error + unit) \<times> param list" where
  "generate_then_put_grad_paramwise_loop T seed n [] ps = (Inr (), ps)"
| "generate_then_put_grad_paramwise_loop T seed n ((i, dir_grad) # rest) ps =
     (case put_grad_paramwise_loop T i (dir_grad / real n) (get_rng T seed (int i)) ps of
        (Inl e, ps') \<Rightarrow> (Inl e, ps')
      | (Inr u, ps') \<Rightarrow> generate_then_put_grad_paramwise_loop T seed n rest ps')"

definition generate_then_put_grad_paramwise ::
  "'g torch_rng \<Rightarrow> estimator \<Rightarrow> int \<Rightarrow> real list \<Rightarrow> (error + unit) \<times> estimator" where
  "generate_then_put_grad_paramwise T est seed dir_grads =
     (case generate_then_put_grad_paramwise_loop T seed (length dir_grads)
             (enumerate 0 dir_grads) (parameters_list est) of
        (r, ps') \<Rightarrow> (r, est\<lparr>parameters_list := ps'\<rparr>))"

subsection \<open>The directional gradient estimate\<close>

text \<open>
  The loss function is the caller's: \<^verbatim>\<open>loss_fn(batch_inputs, labels)\<close> runs the model
  on the batch and so reads the current parameter values; here it is a function of
  those values (one list per parameter) and the batch.  To be able to say where and
  how often the loss is evaluated, every call is recorded: \<open>calls\<close> is the list of
  parameter values at which \<^verbatim>\<open>loss_fn\<close> has been called, oldest first.
\<close>

type_synonym calls = "real list list list"

definition call_loss ::
  "(real list list \<Rightarrow> 'x \<Rightarrow> 'y \<Rightarrow> real) \<Rightarrow> 'x \<Rightarrow> 'y \<Rightarrow> estimator \<Rightarrow> calls \<Rightarrow> real \<times> calls" where
  "call_loss loss_fn batch_inputs labels est cl =
     (loss_fn (map data (parameters_list est)) batch_inputs labels,
      cl @ [map data (parameters_list est)])"

text \<open>
  The locals carried round the loop of \<^verbatim>\<open>_zo_grad_estimate\<close>:
  \<^verbatim>\<open>pert_minus_loss\<close> (unbound until assigned), \<^verbatim>\<open>grad\<close> and \<^verbatim>\<open>dir_grads\<close>.
\<close>

type_synonym zo_locals = "real option \<times> real list option \<times> real list"

text \<open>One iteration of the loop of \<^verbatim>\<open>_zo_grad_estimate\<close> (lines 199-220).\<close>

definition zo_grad_estimate_step ::
  "'g torch_rng \<Rightarrow> (real list list \<Rightarrow> 'x \<Rightarrow> 'y \<Rightarrow> real) \<Rightarrow> 'x \<Rightarrow> 'y \<Rightarrow> int \<Rightarrow> real
     \<Rightarrow> estimator \<Rightarrow> calls \<Rightarrow> zo_locals \<Rightarrow> nat \<Rightarrow> (error + zo_locals) \<times> estimator \<times> calls" where
  "zo_grad_estimate_step T loss_fn batch_inputs labels seed denominator_factor est cl locals i =
     (case locals of (pert_minus_loss, grad0, dir_grads) \<Rightarrow>
      let rng = get_rng T seed (int i);
          pb_norm = fst (generate_perturbation_norm T est rng)
      in case perturb_model est (Some pb_norm) (mu est) of
           (Inl e, est1) \<Rightarrow> (Inl e, est1, cl)
         | (Inr u1, est1) \<Rightarrow>
            (case call_loss loss_fn batch_inputs labels est1 cl of
               (pert_plus_loss, cl1) \<Rightarrow>
                (case (case grad_estimate_method est of
                         rge_central \<Rightarrow>
                           (case perturb_model est1 (Some pb_norm) (- 2 * mu est) of
                              (Inl e, est2) \<Rightarrow> (Inl e, est2, cl1)
                            | (Inr u2, est2) \<Rightarrow>
                               (case call_loss loss_fn batch_inputs labels est2 cl1 of
                                  (minus_loss, cl2) \<Rightarrow>
                                   (case perturb_model est2 (Some pb_norm) (mu est) of
                                      (Inl e, est3) \<Rightarrow> (Inl e, est3, cl2)
                                    | (Inr u3, est3) \<Rightarrow> (Inr (Some minus_loss), est3, cl2))))
                       | rge_forward \<Rightarrow>
                           (case perturb_model est1 (Some pb_norm) (- mu est) of
                              (Inl e, est3) \<Rightarrow> (Inl e, est3, cl1)
                            | (Inr u2, est3) \<Rightarrow> (Inr pert_minus_loss, est3, cl1)))
                 of (Inl e, est3, cl3) \<Rightarrow> (Inl e, est3, cl3)
                  | (Inr pml, est3, cl3) \<Rightarrow>
                     (case pml of
                        None \<Rightarrow> (Inl UnboundLocalError, est3, cl3)
                      | Some minus_loss \<Rightarrow>
                         (let dir_grad = (pert_plus_loss - minus_loss)
                                           / (mu est * denominator_factor)
                          in (Inr (pml,
                                   (case grad0 of
                                      None \<Rightarrow> Some (scale dir_grad pb_norm)
                                    | Some g \<Rightarrow> Some (axpy 1 (scale dir_grad pb_norm) g)),
                                   dir_grads @ [dir_grad]),
                              est3, cl3))))))"

fun zo_grad_estimate_loop ::
  "'g torch_rng \<Rightarrow> (real list list \<Rightarrow> 'x \<Rightarrow> 'y \<Rightarrow> real) \<Rightarrow> 'x \<Rightarrow> 'y \<Rightarrow> int \<Rightarrow> real
     \<Rightarrow> nat list \<Rightarrow> estimator \<Rightarrow> calls \<Rightarrow> zo_locals \<Rightarrow> (error + zo_locals) \<times> estimator \<times> calls" where
  "zo_grad_estimate_loop T loss_fn batch_inputs labels seed df [] est cl locals =
     (Inr locals, est, cl)"
| "zo_grad_estimate_loop T loss_fn batch_inputs labels seed df (i # rest) est cl locals =
     (case zo_grad_estimate_step T loss_fn batch_inputs labels seed df est cl locals i of
        (Inl e, est', cl') \<Rightarrow> (Inl e, est', cl')
      | (Inr locals', est', cl') \<Rightarrow>
          zo_grad_estimate_loop T loss_fn batch_inputs labels seed df rest est' cl' locals')"

text \<open>
  \<^verbatim>\<open>_zo_grad_estimate\<close> (lines 173-223): returns the full gradient and the
  directional gradients.
\<close>

definition zo_grad_estimate ::
  "'g torch_rng \<Rightarrow> (real list list \<Rightarrow> 'x \<Rightarrow> 'y \<Rightarrow> real) \<Rightarrow> 'x \<Rightarrow> 'y \<Rightarrow> int
     \<Rightarrow> estimator \<Rightarrow> calls \<Rightarrow> (error + real list \<times> real list) \<times> estimator \<times> calls" where
  "zo_grad_estimate T loss_fn batch_inputs labels seed est cl =
     (let denominator_factor = (if grad_estimate_method est = rge_central then 2 else 1);
          start = (if grad_estimate_method est = rge_forward
                   then (case call_loss loss_fn batch_inputs labels est cl of
                           (l, cl0) \<Rightarrow> (Some l, cl0))
                   else (None, cl))
      in case zo_grad_estimate_loop T loss_fn batch_inputs labels seed denominator_factor
                [0..<num_pert est] est (snd start) (fst start, None, []) of
           (Inl e, est', cl') \<Rightarrow> (Inl e, est', cl')
         | (Inr (pml, grad1, dir_grads), est', cl') \<Rightarrow>
             (case grad1 of
                None \<Rightarrow> (Inl AssertionError, est', cl')
              | Some g \<Rightarrow>
                  (Inr (map (\<lambda>x. x / real (num_pert est)) g, dir_grads), est', cl')))"

text \<open>
  One iteration of the loop of \<^verbatim>\<open>_zo_grad_estimate_paramwise\<close> (lines 261-275); the
  locals are \<^verbatim>\<open>pert_minus_loss\<close> and \<^verbatim>\<open>dir_grads\<close>.
\<close>

definition zo_grad_estimate_paramwise_step ::
  "'g torch_rng \<Rightarrow> (real list list \<Rightarrow> 'x \<Rightarrow> 'y \<Rightarrow> real) \<Rightarrow> 'x \<Rightarrow> 'y \<Rightarrow> int \<Rightarrow> real
     \<Rightarrow> estimator \<Rightarrow> calls \<Rightarrow> real option \<times> real list \<Rightarrow> nat
     \<Rightarrow> (error + real option \<times> real list) \<times> estimator \<times> calls" where
  "zo_grad_estimate_paramwise_step T loss_fn batch_inputs labels seed denominator_factor
       est cl locals i =
     (case locals of (pert_minus_loss, dir_grads) \<Rightarrow>
      let est1 = fst (perturb_model_paramwise T est (get_rng T seed (int i)) (mu est))
      in case call_loss loss_fn batch_inputs labels est1 cl of
           (pert_plus_loss, cl1) \<Rightarrow>
            (case (case grad_estimate_method est of
                     rge_central \<Rightarrow>
                       (let est2 = fst (perturb_model_paramwise T est1
                                          (get_rng T seed (int i)) (- 2 * mu est))
                        in case call_loss loss_fn batch_inputs labels est2 cl1 of
                             (minus_loss, cl2) \<Rightarrow>
                               (Some minus_loss,
                                fst (perturb_model_paramwise T est2
                                       (get_rng T seed (int i)) (mu est)),
                                cl2))
                   | rge_forward \<Rightarrow>
                       (pert_minus_loss,
                        fst (perturb_model_paramwise T est1 (get_rng T seed (int i)) (- mu est)),
                        cl1))
             of (pml, est3, cl3) \<Rightarrow>
                 (case pml of
                    None \<Rightarrow> (Inl UnboundLocalError, est3, cl3)
                  | Some minus_loss \<Rightarrow>
                      (Inr (pml, dir_grads @ [(pert_plus_loss - minus_loss)
                                                / (mu est * denominator_factor)]),
                       est3, cl3))))"

fun zo_grad_estimate_paramwise_loop ::
  "'g torch_rng \<Rightarrow> (real list list \<Rightarrow> 'x \<Rightarrow> 'y \<Rightarrow> real) \<Rightarrow> 'x \<Rightarrow> 'y \<Rightarrow> int \<Rightarrow> real
     \<Rightarrow> nat list \<Rightarrow> estimator \<Rightarrow> calls \<Rightarrow> real option \<times> real list
     \<Rightarrow> (error + real option \<times> real list) \<times> estimator \<times> calls" where
  "zo_grad_estimate_paramwise_loop T loss_fn batch_inputs labels seed df [] est cl locals =
     (Inr locals, est, cl)"
| "zo_grad_estimate_paramwise_loop T loss_fn batch_inputs labels seed df (i # rest) est cl locals =
     (case zo_grad_estimate_paramwise_step T loss_fn batch_inputs labels seed df est cl locals i of
        (Inl e, est', cl') \<Rightarrow> (Inl e, est', cl')
      | (Inr locals', est', cl') \<Rightarrow>
          zo_grad_estimate_paramwise_loop T loss_fn batch_inputs labels seed df rest
            est' cl' locals')"

text \<open>\<^verbatim>\<open>_zo_grad_estimate_paramwise\<close> (lines 247-276).\<close>

definition zo_grad_estimate_paramwise ::
  "'g torch_rng \<Rightarrow> (real list list \<Rightarrow> 'x \<Rightarrow> 'y \<Rightarrow> real) \<Rightarrow> 'x \<Rightarrow> 'y \<Rightarrow> int
     \<Rightarrow> estimator \<Rightarrow> calls \<Rightarrow> (error + real list) \<times> estimator \<times> calls" where
  "zo_grad_estimate_paramwise T loss_fn batch_inputs labels seed est cl =
     (let denominator_factor = (if grad_estimate_method est = rge_central then 2 else 1);
          start = (if grad_estimate_method est = rge_forward
                   then (case call_loss loss_fn batch_inputs labels est cl of
                           (l, cl0) \<Rightarrow> (Some l, cl0))
                   else (None, cl))
      in case zo_grad_estimate_paramwise_loop T loss_fn batch_inputs labels seed
                denominator_factor [0..<num_pert est] est (snd start) (fst start, []) of
           (Inl e, est', cl') \<Rightarrow> (Inl e, est', cl')
         | (Inr (pml, dir_grads), est', cl') \<Rightarrow> (Inr dir_grads, est', cl'))"

text \<open>\<^verbatim>\<open>compute_grad\<close> (lines 144-159).\<close>

definition compute_grad ::
  "'g torch_rng \<Rightarrow> (real list list \<Rightarrow> 'x \<Rightarrow> 'y \<Rightarrow> real) \<Rightarrow> 'x \<Rightarrow> 'y \<Rightarrow> int \<Rightarrow> bool
     \<Rightarrow> estimator \<Rightarrow> calls \<Rightarrow> (error + real list) \<times> estimator \<times> calls" where
  "compute_grad T loss_fn batch_inputs labels seed is_put est cl =
     (if \<not> paramwise_perturb est then
        (case zo_grad_estimate T loss_fn batch_inputs labels seed est cl of
           (Inl e, est', cl') \<Rightarrow> (Inl e, est', cl')
         | (Inr (g, perturbation_dir_grads), est', cl') \<Rightarrow>
             if is_put then
               (case put_grad est' g of
                  (Inl e, est'') \<Rightarrow> (Inl e, est'', cl')
                | (Inr u, est'') \<Rightarrow> (Inr perturbation_dir_grads, est'', cl'))
             else (Inr perturbation_dir_grads, est', cl'))
      else
        (case zo_grad_estimate_paramwise T loss_fn batch_inputs labels seed est cl of
           (Inl e, est', cl') \<Rightarrow> (Inl e, est', cl')
         | (Inr perturbation_dir_grads, est', cl') \<Rightarrow>
             (case generate_then_put_grad_paramwise T est' seed perturbation_dir_grads of
                (Inl e, est'') \<Rightarrow> (Inl e, est'', cl')
              | (Inr u, est'') \<Rightarrow> (Inr perturbation_dir_grads, est'', cl'))))"

subsection \<open>Update and revert\<close>

text \<open>
  The optimizer is the caller's object.  The code reads \<^verbatim>\<open>defaults["lr"]\<close>,
  \<^verbatim>\<open>defaults["momentum"]\<close> and \<^verbatim>\<open>defaults["weight_decay"]\<close>, tests
  \<^verbatim>\<open>isinstance(optimizer, torch.optim.SGD)\<close> and calls \<^verbatim>\<open>step()\<close>, which acts on
  the parameters and their gradient slots.
\<close>

record optimizer =
  is_SGD :: bool
  lr :: real
  momentum :: real
  weight_decay :: real
  step :: "param list \<Rightarrow> param list"

text \<open>
  Modelled from the spec: \<^verbatim>\<open>torch.optim.SGD.step\<close> is library code.  With zero
  momentum the forward step sets each parameter \<open>p\<close> to \<open>p * (1 - lr * wd) - lr * g\<close>,
  \<open>g\<close> being the gradient in its slot; a parameter with an empty slot is skipped.
\<close>

definition sgd_step :: "real \<Rightarrow> real \<Rightarrow> param list \<Rightarrow> param list" where
  "sgd_step l wd ps =
     map (\<lambda>p. case grad p of
                 None \<Rightarrow> p
               | Some g \<Rightarrow> p\<lparr>data := axpy (- l) g (scale (1 - l * wd) (data p))\<rparr>) ps"

definition SGD :: "real \<Rightarrow> real \<Rightarrow> optimizer" where
  "SGD l wd = \<lparr> is_SGD = True, lr = l, momentum = 0, weight_decay = wd, step = sgd_step l wd \<rparr>"

text \<open>\<^verbatim>\<open>sgd_no_optim_update_model\<close> (lines 161-171).\<close>

fun sgd_no_optim_update_model_loop ::
  "'g torch_rng \<Rightarrow> int \<Rightarrow> real \<Rightarrow> nat \<Rightarrow> (nat \<times> real) list \<Rightarrow> param list \<Rightarrow> param list" where
  "sgd_no_optim_update_model_loop T seed l n [] ps = ps"
| "sgd_no_optim_update_model_loop T seed l n ((i, dir_grad) # rest) ps =
     sgd_no_optim_update_model_loop T seed l n rest
       (fst (perturb_model_paramwise_loop T (- l * dir_grad / real n)
               (get_rng T seed (int i)) ps))"

definition sgd_no_optim_update_model ::
  "'g torch_rng \<Rightarrow> estimator \<Rightarrow> real list \<Rightarrow> int \<Rightarrow> real \<Rightarrow> estimator" where
  "sgd_no_optim_update_model T est perturbation_dir_grads seed l =
     est\<lparr>parameters_list :=
           sgd_no_optim_update_model_loop T seed l (length perturbation_dir_grads)
             (enumerate 0 perturbation_dir_grads) (parameters_list est)\<rparr>"

text \<open>
  \<^verbatim>\<open>update_model_given_seed_and_grad\<close> (lines 286-310): the two loops over
  \<^verbatim>\<open>zip(iteration_seeds, iteration_grad_scalar)\<close>.
\<close>

fun update_no_optim_loop ::
  "'g torch_rng \<Rightarrow> real \<Rightarrow> (int \<times> real list) list \<Rightarrow> estimator \<Rightarrow> estimator" where
  "update_no_optim_loop T l [] est = est"
| "update_no_optim_loop T l ((one_update_seed, one_update_grad_dirs) # rest) est =
     update_no_optim_loop T l rest
       (sgd_no_optim_update_model T est one_update_grad_dirs one_update_seed l)"

definition inject ::
  "'g torch_rng \<Rightarrow> estimator \<Rightarrow> int \<Rightarrow> real list \<Rightarrow> (error + unit) \<times> estimator" where
  "inject T est one_update_seed one_update_grad_dirs =
     (if paramwise_perturb est
      then generate_then_put_grad_paramwise T est one_update_seed one_update_grad_dirs
      else generate_then_put_grad T est one_update_seed one_update_grad_dirs)"

fun update_loop ::
  "'g torch_rng \<Rightarrow> optimizer \<Rightarrow> (int \<times> real list) list \<Rightarrow> estimator
     \<Rightarrow> (error + unit) \<times> estimator" where
  "update_loop T opt [] est = (Inr (), est)"
| "update_loop T opt ((one_update_seed, one_update_grad_dirs) # rest) est =
     (case inject T est one_update_seed one_update_grad_dirs of
        (Inl e, est') \<Rightarrow> (Inl e, est')
      | (Inr u, est') \<Rightarrow>
          update_loop T opt rest (est'\<lparr>parameters_list := step opt (parameters_list est')\<rparr>))"

definition update_model_given_seed_and_grad ::
  "'g torch_rng \<Rightarrow> estimator \<Rightarrow> optimizer \<Rightarrow> int list \<Rightarrow> real list list
     \<Rightarrow> (error + unit) \<times> estimator" where
  "update_model_given_seed_and_grad T est opt iteration_seeds iteration_grad_scalar =
     (if length iteration_seeds \<noteq> length iteration_grad_scalar then (Inl AssertionError, est)
      else if sgd_only_no_optim est then
        (if \<not> paramwise_perturb est then (Inl AssertionError, est)
         else (Inr (), update_no_optim_loop T (lr opt)
                         (zip iteration_seeds iteration_grad_scalar) est))
      else update_loop T opt (zip iteration_seeds iteration_grad_scalar) est)"

text \<open>
  \<^verbatim>\<open>revert_model_given_seed_and_grad\<close> (lines 312-338).  The inner loop over the
  parameters: the assertion on the slot, the ascent step and, with weight decay, the
  rescaling, whose factor \<^verbatim>\<open>1 / (1 - lr * weight_decay)\<close> is a Python division.
\<close>

fun revert_params :: "real \<Rightarrow> real \<Rightarrow> param list \<Rightarrow> (error + unit) \<times> param list" where
  "revert_params l wd [] = (Inr (), [])"
| "revert_params l wd (p # ps) =
     (case grad p of
        None \<Rightarrow> (Inl AssertionError, p # ps)
      | Some g \<Rightarrow>
          (let p1 = p\<lparr>data := axpy l g (data p)\<rparr>
           in if wd > 0 then
                (if 1 - l * wd = 0 then (Inl ZeroDivisionError, p1 # ps)
                 else (case revert_params l wd ps of
                         (r, ps') \<Rightarrow>
                           (r, p1\<lparr>data := scale (1 / (1 - l * wd)) (data p1)\<rparr> # ps')))
              else (case revert_params l wd ps of (r, ps') \<Rightarrow> (r, p1 # ps'))))"

fun revert_loop ::
  "'g torch_rng \<Rightarrow> real \<Rightarrow> real \<Rightarrow> (int \<times> real list) list \<Rightarrow> estimator
     \<Rightarrow> (error + unit) \<times> estimator" where
  "revert_loop T l wd [] est = (Inr (), est)"
| "revert_loop T l wd ((one_update_seed, one_update_grad_dirs) # rest) est =
     (case inject T est one_update_seed one_update_grad_dirs of
        (Inl e, est') \<Rightarrow> (Inl e, est')
      | (Inr u, est') \<Rightarrow>
          (case revert_params l wd (parameters_list est') of
             (Inl e, ps') \<Rightarrow> (Inl e, est'\<lparr>parameters_list := ps'\<rparr>)
           | (Inr u', ps') \<Rightarrow> revert_loop T l wd rest (est'\<lparr>parameters_list := ps'\<rparr>)))"

definition revert_model_given_seed_and_grad ::
  "'g torch_rng \<Rightarrow> estimator \<Rightarrow> optimizer \<Rightarrow> int list \<Rightarrow> real list list
     \<Rightarrow> (error + unit) \<times> estimator" where
  "revert_model_given_seed_and_grad T est opt iteration_seeds iteration_grad_scalar =
     (if sgd_only_no_optim est then (Inl AssertionError, est)
      else if length iteration_seeds \<noteq> length iteration_grad_scalar
      then (Inl AssertionError, est)
      else if \<not> (is_SGD opt \<and> momentum opt = 0)
      then (Inl (Exception ''Revert only supports SGD without momentum''), est)
      else revert_loop T (lr opt) (weight_decay opt)
             (zip iteration_seeds iteration_grad_scalar) est)"

subsection \<open>Well-formed estimators\<close>

text \<open>
  A tensor holds as many elements as its shape says, and \<^verbatim>\<open>__init__\<close> sets
  \<^verbatim>\<open>total_dimensions\<close> to the sum of the element counts; nothing in the class changes
  a shape afterwards.
\<close>

definition wf_estimator :: "estimator \<Rightarrow> bool" where
  "wf_estimator est =
     (total_dimensions est = sum_list (map numel (parameters_list est))
      \<and> list_all (\<lambda>p. length (data p) = numel p) (parameters_list est))"


subsection \<open>Notions used to state the properties\<close>

text \<open>
  The parameter values \<open>xs\<close> (one list per parameter) moved by \<open>alpha\<close> times the flat
  direction \<open>d\<close>, which is cut into consecutive pieces in parameter order.
\<close>

fun perturbed :: "real \<Rightarrow> real list \<Rightarrow> real list list \<Rightarrow> real list list" where
  "perturbed alpha d [] = []"
| "perturbed alpha d (x # xs) =
     map2 (\<lambda>a b. a + alpha * b) x (take (length x) d)
       # perturbed alpha (drop (length x) d) xs"

text \<open>The same for a direction given as one tensor per parameter.\<close>

definition perturbed_each :: "real \<Rightarrow> real list list \<Rightarrow> real list list \<Rightarrow> real list list" where
  "perturbed_each alpha ds xs = map2 (\<lambda>x d. map2 (\<lambda>a b. a + alpha * b) x d) xs ds"

text \<open>The current parameter values of an estimator.\<close>

definition values_of :: "estimator \<Rightarrow> real list list" where
  "values_of est = map data (parameters_list est)"

text \<open>The parameters, and the estimator, with their values replaced by \<open>xs\<close>.\<close>

definition with_values :: "param list \<Rightarrow> real list list \<Rightarrow> param list" where
  "with_values ps xs = map2 (\<lambda>p x. p\<lparr>data := x\<rparr>) ps xs"

definition set_values :: "estimator \<Rightarrow> real list list \<Rightarrow> estimator" where
  "set_values est xs = est\<lparr>parameters_list := with_values (parameters_list est) xs\<rparr>"

text \<open>Direction \<open>i\<close> of a step in whole-vector mode: the flat draw from key \<open>(seed, i)\<close>.\<close>

definition direction :: "'g torch_rng \<Rightarrow> estimator \<Rightarrow> int \<Rightarrow> nat \<Rightarrow> real list" where
  "direction T est seed i = fst (generate_perturbation_norm T est (get_rng T seed (int i)))"

text \<open>Tensors of the given shapes drawn one after the other from one generator.\<close>

fun draws :: "'g torch_rng \<Rightarrow> 'g \<Rightarrow> nat list list \<Rightarrow> real list list" where
  "draws T g [] = []"
| "draws T g (s # ss) = fst (randn T s g) # draws T (snd (randn T s g)) ss"

text \<open>Direction \<open>i\<close> of a step in paramwise mode: one draw per parameter, in list order.\<close>

definition direction_paramwise ::
  "'g torch_rng \<Rightarrow> estimator \<Rightarrow> int \<Rightarrow> nat \<Rightarrow> real list list" where
  "direction_paramwise T est seed i =
     draws T (get_rng T seed (int i)) (map shape (parameters_list est))"

text \<open>
  The directional gradient of direction \<open>i\<close> as the specification words it:
  \<open>(L_plus - L_minus) / (mu * denom)\<close>, with \<open>L_plus\<close> the loss at the parameters moved
  by \<open>+ mu\<close> times the direction, \<open>denom\<close> 2 in central and 1 in forward mode, and
  \<open>L_minus\<close> the loss at the parameters moved by \<open>- mu\<close> times the direction in central
  mode and the loss at the unperturbed parameters in forward mode.
\<close>

definition plus_point :: "'g torch_rng \<Rightarrow> estimator \<Rightarrow> int \<Rightarrow> nat \<Rightarrow> real list list" where
  "plus_point T est seed i = perturbed (mu est) (direction T est seed i) (values_of est)"

definition minus_point :: "'g torch_rng \<Rightarrow> estimator \<Rightarrow> int \<Rightarrow> nat \<Rightarrow> real list list" where
  "minus_point T est seed i = perturbed (- mu est) (direction T est seed i) (values_of est)"

definition directional_gradient ::
  "'g torch_rng \<Rightarrow> (real list list \<Rightarrow> 'x \<Rightarrow> 'y \<Rightarrow> real) \<Rightarrow> 'x \<Rightarrow> 'y \<Rightarrow> int \<Rightarrow> estimator
     \<Rightarrow> nat \<Rightarrow> real" where
  "directional_gradient T loss_fn batch_inputs labels seed est i =
     (loss_fn (plus_point T est seed i) batch_inputs labels
        - (case grad_estimate_method est of
             rge_central \<Rightarrow> loss_fn (minus_point T est seed i) batch_inputs labels
           | rge_forward \<Rightarrow> loss_fn (values_of est) batch_inputs labels))
     / (mu est * (case grad_estimate_method est of rge_central \<Rightarrow> 2 | rge_forward \<Rightarrow> 1))"

definition plus_point_paramwise ::
  "'g torch_rng \<Rightarrow> estimator \<Rightarrow> int \<Rightarrow> nat \<Rightarrow> real list list" where
  "plus_point_paramwise T est seed i =
     perturbed_each (mu est) (direction_paramwise T est seed i) (values_of est)"

definition minus_point_paramwise ::
  "'g torch_rng \<Rightarrow> estimator \<Rightarrow> int \<Rightarrow> nat \<Rightarrow> real list list" where
  "minus_point_paramwise T est seed i =
     perturbed_each (- mu est) (direction_paramwise T est seed i) (values_of est)"

definition directional_gradient_paramwise ::
  "'g torch_rng \<Rightarrow> (real list list \<Rightarrow> 'x \<Rightarrow> 'y \<Rightarrow> real) \<Rightarrow> 'x \<Rightarrow> 'y \<Rightarrow> int \<Rightarrow> estimator
     \<Rightarrow> nat \<Rightarrow> real" where
  "directional_gradient_paramwise T loss_fn batch_inputs labels seed est i =
     (loss_fn (plus_point_paramwise T est seed i) batch_inputs labels
        - (case grad_estimate_method est of
             rge_central \<Rightarrow> loss_fn (minus_point_paramwise T est seed i) batch_inputs labels
           | rge_forward \<Rightarrow> loss_fn (values_of est) batch_inputs labels))
     / (mu est * (case grad_estimate_method est of rge_central \<Rightarrow> 2 | rge_forward \<Rightarrow> 1))"

text \<open>
  The injected gradient as the specification words it: the flat vector
  \<open>\<Sum>i. direction i * dir_grads[i] / num_pert\<close>, cut into consecutive parameter-sized
  pieces, one per gradient slot.
\<close>

definition averaged_sum :: "'g torch_rng \<Rightarrow> estimator \<Rightarrow> int \<Rightarrow> real list \<Rightarrow> real list" where
  "averaged_sum T est seed dir_grads =
     map (\<lambda>j. \<Sum>i<length dir_grads.
                  direction T est seed i ! j * (dir_grads ! i / real (length dir_grads)))
       [0..<total_dimensions est]"

fun pieces :: "real list \<Rightarrow> nat list \<Rightarrow> real list list" where
  "pieces v [] = []"
| "pieces v (n # ns) = take n v # pieces (drop n v) ns"

definition with_grads :: "param list \<Rightarrow> real list list \<Rightarrow> param list" where
  "with_grads ps gs = map2 (\<lambda>p g. p\<lparr>grad := Some g\<rparr>) ps gs"

text \<open>
  The gradients that paramwise injection accumulates, one tensor per parameter: the first
  direction sets them, every later direction is added.
\<close>

fun accumulate_each ::
  "'g torch_rng \<Rightarrow> int \<Rightarrow> nat \<Rightarrow> nat list list \<Rightarrow> real list list \<Rightarrow> (nat \<times> real) list
     \<Rightarrow> real list list" where
  "accumulate_each T seed n shapes gs [] = gs"
| "accumulate_each T seed n shapes gs ((i, x) # rest) =
     accumulate_each T seed n shapes
       (map2 (\<lambda>g d. axpy 1 (scale (x / real n) d) g) gs
          (draws T (get_rng T seed (int i)) shapes))
       rest"

fun paramwise_grads ::
  "'g torch_rng \<Rightarrow> int \<Rightarrow> nat \<Rightarrow> nat list list \<Rightarrow> (nat \<times> real) list \<Rightarrow> real list list" where
  "paramwise_grads T seed n shapes [] = []"
| "paramwise_grads T seed n shapes ((i, x) # rest) =
     accumulate_each T seed n shapes
       (map (scale (x / real n)) (draws T (get_rng T seed (int i)) shapes)) rest"

text \<open>The gradients that injection writes, in either mode.\<close>

definition injected_grads :: "'g torch_rng \<Rightarrow> estimator \<Rightarrow> int \<Rightarrow> real list \<Rightarrow> real list list" where
  "injected_grads T est seed dir_grads =
     (if paramwise_perturb est
      then paramwise_grads T seed (length dir_grads) (map shape (parameters_list est))
             (enumerate 0 dir_grads)
      else pieces (averaged_sum T est seed dir_grads) (map numel (parameters_list est)))"


subsection \<open>A small instance\<close>

text \<open>
  A generator whose state is a key and a position in the key's stream, an estimator over
  two parameters of two and one elements, and a loss.
\<close>

definition stream_rng :: "(int \<times> nat) torch_rng" where
  "stream_rng =
     \<lparr> manual_seed = (\<lambda>k. (k, 0)),
       sample = (\<lambda>g shp j. real_of_int ((fst g + int (snd g) + int j) mod 3) - 1),
       advance = (\<lambda>g shp. (fst g, snd g + prod_list shp)) \<rparr>"


definition two_params :: "param list" where
  "two_params =
     [\<lparr> requires_grad = True, shape = [2], data = [1, 2], grad = None \<rparr>,
      \<lparr> requires_grad = True, shape = [1], data = [3], grad = None \<rparr>]"

definition small_est :: "RandomGradEstimateMethod \<Rightarrow> bool \<Rightarrow> estimator" where
  "small_est m pw =
     \<lparr> parameters_list = two_params, total_dimensions = 3, mu = 1 / 2, num_pert = 2,
       grad_estimate_method = m, paramwise_perturb = pw, sgd_only_no_optim = False,
       normalize_perturbation = False \<rparr>"

text \<open>An SGD optimizer with momentum, which revert does not support.\<close>

definition momentum_sgd :: optimizer where
  "momentum_sgd =
     \<lparr> is_SGD = True, lr = 1 / 10, momentum = 9 / 10, weight_decay = 0,
       step = (\<lambda>ps. ps) \<rparr>"

definition sum_loss :: "real list list \<Rightarrow> unit \<Rightarrow> unit \<Rightarrow> real" where
  "sum_loss xs batch_inputs labels = sum_list (map (\<lambda>x. sum_list (map (\<lambda>a. a * a) x)) xs)"

section \<open>Construction\<close>

lemma init_method_error:
  "\<not> valid_method a \<Longrightarrow>
   init ps m n a nrm pw so
     = Inl (Exception ''Grad estimate method has to be rge-central or rge-forward'')"
  by (cases a) (simp_all add: init_def valid_method_def Let_def)

lemma init_method_ok:
  "valid_method a \<Longrightarrow>
   init ps m n a nrm pw so =
     (if pw \<and> nrm then Inl AssertionError
      else if so \<and> \<not> pw then Inl AssertionError
      else Inr \<lparr> parameters_list = filter requires_grad ps,
                 total_dimensions = sum_list (map numel (filter requires_grad ps)),
                 mu = m, num_pert = n,
                 grad_estimate_method =
                   (case a of Member k \<Rightarrow> k
                    | Str s \<Rightarrow> if s = ''rge-central'' then rge_central else rge_forward),
                 paramwise_perturb = pw, sgd_only_no_optim = so,
                 normalize_perturbation = nrm \<rparr>)"
  by (cases a) (auto simp add: init_def valid_method_def Let_def)

text \<open>
  C9.  Construction raises for each of the three invalid configurations (an unknown
  method string; paramwise with normalisation; the raw-SGD path without paramwise), and
  returns an estimator for every other configuration: it raises exactly when the
  configuration is not valid.
\<close>

theorem init_raises_iff_invalid:
  "is_error (init ps m n a nrm pw so) = (\<not> valid_config a nrm pw so)"
proof (cases "valid_method a")
  case True
  then show ?thesis by (simp add: init_method_ok valid_config_def)
next
  case False
  then show ?thesis by (simp add: init_method_error valid_config_def)
qed

theorem init_raises_iff_invalid_witness:
  "is_error (init two_params (1 / 1000) 1 (Str ''rge-sideways'') False False False)
   \<and> is_error (init two_params (1 / 1000) 1 (Member rge_central) True True False)
   \<and> is_error (init two_params (1 / 1000) 1 (Str ''rge-forward'') False False True)
   \<and> \<not> is_error (init two_params (1 / 1000) 1 (Str ''rge-forward'') False True True)"
  using init_raises_iff_invalid [of two_params "1 / 1000" 1 "Str ''rge-sideways''" False False False]
    init_raises_iff_invalid [of two_params "1 / 1000" 1 "Member rge_central" True True False]
    init_raises_iff_invalid [of two_params "1 / 1000" 1 "Str ''rge-forward''" False False True]
    init_raises_iff_invalid [of two_params "1 / 1000" 1 "Str ''rge-forward''" False True True]
  by (simp add: valid_config_def valid_method_def)

section \<open>Applying and undoing a perturbation\<close>

lemma with_values_simps [simp]:
  "with_values [] xs = []"
  "with_values ps [] = []"
  "with_values (p # ps) (x # xs) = p\<lparr>data := x\<rparr> # with_values ps xs"
  by (simp_all add: with_values_def)

lemma with_values_same [simp]: "with_values ps (map data ps) = ps"
  by (induction ps) simp_all

lemma map_data_with_values: "length xs = length ps \<Longrightarrow> map data (with_values ps xs) = xs"
  by (induction ps xs rule: list_induct2') simp_all

lemma length_perturbed [simp]: "length (perturbed alpha d xs) = length xs"
  by (induction xs arbitrary: d) simp_all

lemma map_shape_with_values: "length xs = length ps \<Longrightarrow> map shape (with_values ps xs) = map shape ps"
  by (induction ps xs rule: list_induct2') simp_all

lemma perturb_model_loop_ok:
  "list_all (\<lambda>p. length (data p) = numel p) ps \<Longrightarrow>
   start + sum_list (map numel ps) \<le> length pb \<Longrightarrow>
   perturb_model_loop (Some pb) alpha start ps
     = (Inr (), with_values ps (perturbed alpha (drop start pb) (map data ps)))"
proof (induction ps arbitrary: start)
  case Nil
  then show ?case by simp
next
  case (Cons p ps)
  from Cons.prems have len: "length (data p) = numel p"
    and rest: "list_all (\<lambda>p. length (data p) = numel p) ps"
    and bound: "(start + numel p) + sum_list (map numel ps) \<le> length pb"
    by simp_all
  have v: "view (slice pb start (start + numel p)) (shape p) = Inr (take (numel p) (drop start pb))"
    using bound by (simp add: view_def slice_def numel_def)
  show ?case
    using Cons.IH [OF rest bound] v len
    by (simp add: axpy_def add.commute)
qed

lemma perturbed_length_pres:
  "sum_list (map length xs) \<le> length d \<Longrightarrow> map length (perturbed alpha d xs) = map length xs"
  by (induction xs arbitrary: d) simp_all

lemma map2_add_add:
  "map2 (\<lambda>a b. a + beta * b) (map2 (\<lambda>a b. a + alpha * b) x d) (d::real list)
     = map2 (\<lambda>a b. a + (alpha + beta) * b) x d"
  by (induction x d rule: list_induct2') (simp_all add: algebra_simps)

lemma map2_add_zero: "length x \<le> length d \<Longrightarrow> map2 (\<lambda>a b. a + 0 * b) x (d::real list) = x"
  by (induction x d rule: list_induct2') simp_all

lemma perturbed_twice:
  "sum_list (map length xs) \<le> length d \<Longrightarrow>
   perturbed beta d (perturbed alpha d xs) = perturbed (alpha + beta) d xs"
proof (induction xs arbitrary: d)
  case Nil
  then show ?case by simp
next
  case (Cons x xs)
  then have "length x \<le> length d" and "sum_list (map length xs) \<le> length (drop (length x) d)"
    by simp_all
  then show ?case
    using Cons.IH [of "drop (length x) d"]
    by (simp add: map2_add_add min_absorb1 take_map [symmetric] del: take_map)
qed

lemma perturbed_zero:
  "sum_list (map length xs) \<le> length d \<Longrightarrow> perturbed 0 d xs = xs"
proof (induction xs arbitrary: d)
  case Nil
  then show ?case by simp
next
  case (Cons x xs)
  then have "length x \<le> length d" and "sum_list (map length xs) \<le> length (drop (length x) d)"
    by simp_all
  then show ?case
    using Cons.IH [of "drop (length x) d"] map2_add_zero [of x "take (length x) d"]
    by simp
qed


lemma with_values_with_values:
  "length xs = length ps \<Longrightarrow> with_values (with_values ps xs) ys = with_values ps ys"
proof (induction ps xs arbitrary: ys rule: list_induct2')
  case (4 p ps x xs)
  then show ?case by (cases ys) simp_all
qed simp_all

lemma map_numel_with_values:
  "length xs = length ps \<Longrightarrow> map numel (with_values ps xs) = map numel ps"
  by (induction ps xs rule: list_induct2') (simp_all add: numel_def)

lemma length_with_values: "length xs = length ps \<Longrightarrow> length (with_values ps xs) = length ps"
  by (simp add: with_values_def)

lemma values_of_set_values:
  "length xs = length (parameters_list est) \<Longrightarrow> values_of (set_values est xs) = xs"
  by (simp add: values_of_def set_values_def map_data_with_values)

lemma set_values_same [simp]: "set_values est (values_of est) = est"
  by (simp add: values_of_def set_values_def)

lemma set_values_set_values:
  "length xs = length (parameters_list est) \<Longrightarrow> set_values (set_values est xs) ys = set_values est ys"
  by (simp add: set_values_def with_values_with_values)

lemma sum_length_values:
  "list_all (\<lambda>p. length (data p) = numel p) ps \<Longrightarrow>
   sum_list (map length (map data ps)) = sum_list (map numel ps)"
  by (induction ps) simp_all

lemma wf_sum_length:
  "wf_estimator est \<Longrightarrow> sum_list (map length (values_of est)) = total_dimensions est"
  by (simp add: wf_estimator_def values_of_def sum_length_values del: map_map)

lemma list_all_with_values:
  "list_all (\<lambda>p. length (data p) = numel p) ps \<Longrightarrow> map length xs = map length (map data ps) \<Longrightarrow>
   list_all (\<lambda>p. length (data p) = numel p) (with_values ps xs)"
proof (induction ps arbitrary: xs)
  case Nil
  then show ?case by simp
next
  case (Cons p ps)
  then show ?case by (cases xs) (simp_all add: numel_def)
qed

lemma wf_set_values:
  assumes "wf_estimator est" and "map length xs = map length (values_of est)"
  shows "wf_estimator (set_values est xs)"
proof -
  from assms(2) have len: "length xs = length (parameters_list est)"
    using map_eq_imp_length_eq [OF assms(2)] by (simp add: values_of_def)
  show ?thesis
    using assms len
    by (simp add: wf_estimator_def set_values_def map_numel_with_values list_all_with_values
        values_of_def del: map_map)
qed

lemma perturb_model_ok:
  assumes "wf_estimator est" and "length d = total_dimensions est"
  shows "perturb_model est (Some d) alpha
           = (Inr (), set_values est (perturbed alpha d (values_of est)))"
  using assms perturb_model_loop_ok [of "parameters_list est" 0 d alpha]
  by (simp add: perturb_model_def wf_estimator_def set_values_def values_of_def)

lemma perturb_model_again:
  assumes "wf_estimator est" and "length d = total_dimensions est"
  shows "perturb_model (set_values est (perturbed alpha d (values_of est))) (Some d) beta
           = (Inr (), set_values est (perturbed (alpha + beta) d (values_of est)))"
proof -
  let ?xs = "perturbed alpha d (values_of est)"
  have sl: "sum_list (map length (values_of est)) \<le> length d"
    using assms by (simp add: wf_sum_length)
  have ml: "map length ?xs = map length (values_of est)"
    using sl by (rule perturbed_length_pres)
  have len: "length ?xs = length (parameters_list est)"
    by (simp add: values_of_def)
  have wf': "wf_estimator (set_values est ?xs)"
    using assms(1) ml by (rule wf_set_values)
  have td: "length d = total_dimensions (set_values est ?xs)"
    using assms(2) by (simp add: set_values_def)
  show ?thesis
    using perturb_model_ok [OF wf' td, of beta] len sl
    by (simp add: values_of_set_values set_values_set_values perturbed_twice)
qed

lemma set_values_perturbed_zero:
  assumes "wf_estimator est" and "length d = total_dimensions est"
  shows "set_values est (perturbed 0 d (values_of est)) = est"
  using assms by (simp add: perturbed_zero wf_sum_length)

subsection \<open>The small instance is well formed\<close>

lemma wf_small_est: "wf_estimator (small_est m pw)"
  by (simp add: wf_estimator_def small_est_def two_params_def numel_def)

lemma shapes_small_est: "list_all (\<lambda>p. shape p \<noteq> []) (parameters_list (small_est m pw))"
  by (simp add: small_est_def two_params_def)


subsection \<open>Paramwise perturbation\<close>

lemma length_draws [simp]: "length (draws T g ss) = length ss"
  by (induction ss arbitrary: g) simp_all

lemma map_length_draws: "map length (draws T g ss) = map prod_list ss"
  by (induction ss arbitrary: g) (simp_all add: randn_def)

lemma perturbed_each_simps [simp]:
  "perturbed_each alpha ds [] = []"
  "perturbed_each alpha [] xs = []"
  "perturbed_each alpha (d # ds) (x # xs)
     = map2 (\<lambda>a b. a + alpha * b) x d # perturbed_each alpha ds xs"
  by (simp_all add: perturbed_each_def)

lemma perturb_model_paramwise_loop_fst:
  "fst (perturb_model_paramwise_loop T alpha rng ps)
     = with_values ps (perturbed_each alpha (draws T rng (map shape ps)) (map data ps))"
proof (induction ps arbitrary: rng)
  case Nil
  then show ?case by simp
next
  case (Cons p ps)
  show ?case
    using Cons.IH [of "snd (randn T (shape p) rng)"]
    by (simp add: axpy_def case_prod_unfold)
qed

lemma perturbed_each_twice:
  "perturbed_each beta ds (perturbed_each alpha ds xs) = perturbed_each (alpha + beta) ds xs"
  by (induction ds xs rule: list_induct2') (simp_all add: map2_add_add)

lemma perturbed_each_zero:
  "map length ds = map length xs \<Longrightarrow> perturbed_each 0 ds xs = xs"
proof (induction ds xs rule: list_induct2')
  case (4 d ds x xs)
  then show ?case using map2_add_zero [of x d] by simp
qed simp_all

lemma length_perturbed_each:
  "length ds = length xs \<Longrightarrow> length (perturbed_each alpha ds xs) = length xs"
  by (simp add: perturbed_each_def)

lemma perturb_model_paramwise_fst:
  "fst (perturb_model_paramwise T est rng alpha)
     = set_values est (perturbed_each alpha (draws T rng (map shape (parameters_list est)))
                         (values_of est))"
  using perturb_model_paramwise_loop_fst [of T alpha rng "parameters_list est"]
  by (simp add: perturb_model_paramwise_def set_values_def values_of_def case_prod_unfold)

lemma parameters_set_values_shape:
  "length xs = length (parameters_list est) \<Longrightarrow>
   map shape (parameters_list (set_values est xs)) = map shape (parameters_list est)"
  by (simp add: set_values_def map_shape_with_values)

lemma perturb_model_paramwise_again:
  "fst (perturb_model_paramwise T
          (set_values est (perturbed_each alpha (draws T rng (map shape (parameters_list est)))
                             (values_of est))) rng beta)
     = set_values est (perturbed_each (alpha + beta)
                         (draws T rng (map shape (parameters_list est))) (values_of est))"
proof -
  let ?ds = "draws T rng (map shape (parameters_list est))"
  let ?xs = "perturbed_each alpha ?ds (values_of est)"
  have len: "length ?xs = length (parameters_list est)"
    by (simp add: length_perturbed_each values_of_def)
  show ?thesis
    using len
    by (simp add: perturb_model_paramwise_fst parameters_set_values_shape values_of_set_values
        set_values_set_values perturbed_each_twice)
qed

lemma draws_fit:
  "wf_estimator est \<Longrightarrow>
   map length (draws T rng (map shape (parameters_list est))) = map length (values_of est)"
  by (simp add: map_length_draws wf_estimator_def values_of_def list_all_iff numel_def)

lemma set_values_perturbed_each_zero:
  "wf_estimator est \<Longrightarrow>
   set_values est (perturbed_each 0 (draws T rng (map shape (parameters_list est))) (values_of est))
     = est"
  by (simp add: perturbed_each_zero draws_fit)

text \<open>
  C3.  Applying a perturbation scaled by \<open>alpha\<close> and then the same perturbation scaled
  by \<open>- alpha\<close>, or the central sequence \<open>+ mu\<close>, \<open>- 2 * mu\<close>, \<open>+ mu\<close>, gives back the
  estimator with every parameter at its original value: in whole-vector mode with the
  same flat vector, and in paramwise mode with the generator derived again from the same
  \<open>(seed, index)\<close> before each application.
\<close>

theorem perturb_then_restore:
  assumes "wf_estimator est"
  shows "(length pb = total_dimensions est \<longrightarrow>
            fst (perturb_model est (Some pb) alpha) = Inr ()
          \<and> perturb_model (snd (perturb_model est (Some pb) alpha)) (Some pb) (- alpha)
              = (Inr (), est)
          \<and> fst (perturb_model est (Some pb) m) = Inr ()
          \<and> fst (perturb_model (snd (perturb_model est (Some pb) m)) (Some pb) (- 2 * m)) = Inr ()
          \<and> perturb_model
               (snd (perturb_model (snd (perturb_model est (Some pb) m)) (Some pb) (- 2 * m)))
               (Some pb) m = (Inr (), est))
       \<and> (list_all (\<lambda>p. shape p \<noteq> []) (parameters_list est) \<longrightarrow>
            fst (perturb_model_paramwise T
                   (fst (perturb_model_paramwise T est (get_rng T seed i) alpha))
                   (get_rng T seed i) (- alpha)) = est
          \<and> fst (perturb_model_paramwise T
                   (fst (perturb_model_paramwise T
                           (fst (perturb_model_paramwise T est (get_rng T seed i) m))
                           (get_rng T seed i) (- 2 * m)))
                   (get_rng T seed i) m) = est)"
proof (intro conjI impI)
  assume len: "length pb = total_dimensions est"
  show "fst (perturb_model est (Some pb) alpha) = Inr ()"
    and "fst (perturb_model est (Some pb) m) = Inr ()"
    using assms len by (simp_all add: perturb_model_ok)
  show "perturb_model (snd (perturb_model est (Some pb) alpha)) (Some pb) (- alpha) = (Inr (), est)"
    using assms len
    by (simp add: perturb_model_ok perturb_model_again set_values_perturbed_zero)
  show "fst (perturb_model (snd (perturb_model est (Some pb) m)) (Some pb) (- 2 * m)) = Inr ()"
    using assms len by (simp add: perturb_model_ok perturb_model_again)
  show "perturb_model
          (snd (perturb_model (snd (perturb_model est (Some pb) m)) (Some pb) (- 2 * m)))
          (Some pb) m = (Inr (), est)"
    using assms len
    by (simp add: perturb_model_ok perturb_model_again set_values_perturbed_zero)
next
  show "fst (perturb_model_paramwise T
               (fst (perturb_model_paramwise T est (get_rng T seed i) alpha))
               (get_rng T seed i) (- alpha)) = est"
    using assms
    by (simp add: perturb_model_paramwise_fst [of T est] perturb_model_paramwise_again
        set_values_perturbed_each_zero)
  show "fst (perturb_model_paramwise T
               (fst (perturb_model_paramwise T
                       (fst (perturb_model_paramwise T est (get_rng T seed i) m))
                       (get_rng T seed i) (- 2 * m)))
               (get_rng T seed i) m) = est"
    using assms
    by (simp add: perturb_model_paramwise_fst [of T est] perturb_model_paramwise_again
        set_values_perturbed_each_zero)
qed


theorem perturb_then_restore_witness:
  "wf_estimator (small_est rge_central False)
   \<and> length [1, 0, - 1 :: real] = total_dimensions (small_est rge_central False)
   \<and> list_all (\<lambda>p. shape p \<noteq> []) (parameters_list (small_est rge_central False))
   \<and> perturb_model (snd (perturb_model (small_est rge_central False) (Some [1, 0, - 1]) (1 / 2)))
        (Some [1, 0, - 1]) (- (1 / 2)) = (Inr (), small_est rge_central False)
   \<and> perturb_model
        (snd (perturb_model
                (snd (perturb_model (small_est rge_central False) (Some [1, 0, - 1]) (1 / 4)))
                (Some [1, 0, - 1]) (- 2 * (1 / 4))))
        (Some [1, 0, - 1]) (1 / 4) = (Inr (), small_est rge_central False)
   \<and> fst (perturb_model_paramwise stream_rng
             (fst (perturb_model_paramwise stream_rng (small_est rge_central False)
                     (get_rng stream_rng 42 0) (1 / 2)))
             (get_rng stream_rng 42 0) (- (1 / 2))) = small_est rge_central False
   \<and> fst (perturb_model_paramwise stream_rng
             (fst (perturb_model_paramwise stream_rng
                     (fst (perturb_model_paramwise stream_rng (small_est rge_central False)
                             (get_rng stream_rng 42 0) (1 / 4)))
                     (get_rng stream_rng 42 0) (- 2 * (1 / 4))))
             (get_rng stream_rng 42 0) (1 / 4)) = small_est rge_central False"
proof -
  have len: "length [1, 0, - 1 :: real] = total_dimensions (small_est rge_central False)"
    by (simp add: small_est_def)
  show ?thesis
    using perturb_then_restore [OF wf_small_est, of "[1, 0, - 1]" rge_central False
        "1 / 2" "1 / 4" stream_rng 42 0]
      len wf_small_est [of rge_central False] shapes_small_est [of rge_central False]
    by blast
qed

section \<open>The randomness source\<close>

text \<open>
  C4.  The generator used to draw perturbation \<open>i\<close> of a step is seeded with the key
  \<open>seed * (i + 17) + i\<close>, and the perturbation drawn from it is a function of that key
  (with the configured size, shapes and normalisation flag) alone: the flat draw is the
  library's draw of \<open>total_dimensions\<close> values from the generator seeded with the key,
  normalised when configured, and the paramwise perturbation moves the parameters by the
  tensors drawn one after the other from the generator seeded with the key.  Neither
  depends on the parameter values, on the gradient slots or on earlier draws.
\<close>

theorem get_rng_key_determines_draw:
  "get_rng T seed i = manual_seed T (seed * (i + 17) + i)
   \<and> fst (generate_perturbation_norm T est (get_rng T seed i))
       = (let p = map (sample T (manual_seed T (seed * (i + 17) + i)) [total_dimensions est])
                    [0..<total_dimensions est]
          in if normalize_perturbation est then map (\<lambda>x. x / norm2 p) p else p)
   \<and> fst (perturb_model_paramwise T est (get_rng T seed i) alpha)
       = set_values est
           (perturbed_each alpha
              (draws T (manual_seed T (seed * (i + 17) + i)) (map shape (parameters_list est)))
              (values_of est))"
  by (simp add: get_rng_def generate_perturbation_norm_def randn_def Let_def
      perturb_model_paramwise_fst)

section \<open>The directional gradient estimate\<close>

lemma length_direction [simp]: "length (direction T est seed i) = total_dimensions est"
  by (simp add: direction_def generate_perturbation_norm_def randn_def)

lemma fields_set_values [simp]:
  "mu (set_values est xs) = mu est"
  "num_pert (set_values est xs) = num_pert est"
  "total_dimensions (set_values est xs) = total_dimensions est"
  "grad_estimate_method (set_values est xs) = grad_estimate_method est"
  "normalize_perturbation (set_values est xs) = normalize_perturbation est"
  "paramwise_perturb (set_values est xs) = paramwise_perturb est"
  by (simp_all add: set_values_def)

lemma values_of_moved:
  "values_of (set_values est (perturbed alpha d (values_of est))) = perturbed alpha d (values_of est)"
proof -
  have "length (perturbed alpha d (values_of est)) = length (parameters_list est)"
    by (simp add: values_of_def)
  then show ?thesis by (rule values_of_set_values)
qed

lemma zo_grad_estimate_step_central:
  assumes wf: "wf_estimator est" and m: "grad_estimate_method est = rge_central"
  shows "zo_grad_estimate_step T loss_fn bi lb seed df est cl (pml, g0, dgs) i
     = (Inr (Some (loss_fn (minus_point T est seed i) bi lb),
             Some (case g0 of
                     None \<Rightarrow> scale ((loss_fn (plus_point T est seed i) bi lb
                                       - loss_fn (minus_point T est seed i) bi lb) / (mu est * df))
                               (direction T est seed i)
                   | Some g \<Rightarrow> axpy 1 (scale ((loss_fn (plus_point T est seed i) bi lb
                                       - loss_fn (minus_point T est seed i) bi lb) / (mu est * df))
                               (direction T est seed i)) g),
             dgs @ [(loss_fn (plus_point T est seed i) bi lb
                       - loss_fn (minus_point T est seed i) bi lb) / (mu est * df)]),
        est, cl @ [plus_point T est seed i, minus_point T est seed i])"
proof -
  let ?d = "direction T est seed i"
  have len: "length ?d = total_dimensions est" by simp
  have p1: "perturb_model est (Some ?d) (mu est)
              = (Inr (), set_values est (plus_point T est seed i))"
    using perturb_model_ok [OF wf len] by (simp add: plus_point_def)
  have p2: "perturb_model (set_values est (plus_point T est seed i)) (Some ?d) (- (2 * mu est))
              = (Inr (), set_values est (minus_point T est seed i))"
    using perturb_model_again [OF wf len, of "mu est" "- (2 * mu est)"]
    by (simp add: plus_point_def minus_point_def)
  have p3: "perturb_model (set_values est (minus_point T est seed i)) (Some ?d) (mu est)
              = (Inr (), est)"
    using perturb_model_again [OF wf len, of "- mu est" "mu est"]
      set_values_perturbed_zero [OF wf len]
    by (simp add: minus_point_def)
  have v1: "values_of (set_values est (plus_point T est seed i)) = plus_point T est seed i"
    by (simp add: plus_point_def values_of_moved)
  have v2: "values_of (set_values est (minus_point T est seed i)) = minus_point T est seed i"
    by (simp add: minus_point_def values_of_moved)
  have c1: "call_loss loss_fn bi lb (set_values est (plus_point T est seed i)) cl
              = (loss_fn (plus_point T est seed i) bi lb, cl @ [plus_point T est seed i])"
    using v1 by (simp add: call_loss_def values_of_def)
  have c2: "call_loss loss_fn bi lb (set_values est (minus_point T est seed i))
                (cl @ [plus_point T est seed i])
              = (loss_fn (minus_point T est seed i) bi lb,
                 cl @ [plus_point T est seed i, minus_point T est seed i])"
    using v2 by (simp add: call_loss_def values_of_def)
  show ?thesis
    unfolding zo_grad_estimate_step_def Let_def direction_def [symmetric]
    by (simp add: p1 c1 m p2 c2 p3 split: option.split)
qed

lemma zo_grad_estimate_step_forward:
  assumes wf: "wf_estimator est" and m: "grad_estimate_method est = rge_forward"
  shows "zo_grad_estimate_step T loss_fn bi lb seed df est cl (Some l0, g0, dgs) i
     = (Inr (Some l0,
             Some (case g0 of
                     None \<Rightarrow> scale ((loss_fn (plus_point T est seed i) bi lb - l0) / (mu est * df))
                               (direction T est seed i)
                   | Some g \<Rightarrow> axpy 1 (scale ((loss_fn (plus_point T est seed i) bi lb - l0)
                                                 / (mu est * df))
                               (direction T est seed i)) g),
             dgs @ [(loss_fn (plus_point T est seed i) bi lb - l0) / (mu est * df)]),
        est, cl @ [plus_point T est seed i])"
proof -
  let ?d = "direction T est seed i"
  have len: "length ?d = total_dimensions est" by simp
  have p1: "perturb_model est (Some ?d) (mu est)
              = (Inr (), set_values est (plus_point T est seed i))"
    using perturb_model_ok [OF wf len] by (simp add: plus_point_def)
  have p2: "perturb_model (set_values est (plus_point T est seed i)) (Some ?d) (- mu est)
              = (Inr (), est)"
    using perturb_model_again [OF wf len, of "mu est" "- mu est"]
      set_values_perturbed_zero [OF wf len]
    by (simp add: plus_point_def)
  have v1: "values_of (set_values est (plus_point T est seed i)) = plus_point T est seed i"
    by (simp add: plus_point_def values_of_moved)
  have c1: "call_loss loss_fn bi lb (set_values est (plus_point T est seed i)) cl
              = (loss_fn (plus_point T est seed i) bi lb, cl @ [plus_point T est seed i])"
    using v1 by (simp add: call_loss_def values_of_def)
  show ?thesis
    unfolding zo_grad_estimate_step_def Let_def direction_def [symmetric]
    by (simp add: p1 c1 m p2 split: option.split)
qed


lemma zo_grad_estimate_loop_central:
  assumes wf: "wf_estimator est" and m: "grad_estimate_method est = rge_central"
  shows "\<exists>pml' g'.
     zo_grad_estimate_loop T loss_fn bi lb seed df js est cl (pml, g0, dgs)
       = (Inr (pml', g',
               dgs @ map (\<lambda>i. (loss_fn (plus_point T est seed i) bi lb
                                 - loss_fn (minus_point T est seed i) bi lb) / (mu est * df)) js),
          est, cl @ concat (map (\<lambda>i. [plus_point T est seed i, minus_point T est seed i]) js))
     \<and> (js \<noteq> [] \<or> g0 \<noteq> None \<longrightarrow> g' \<noteq> None)"
proof (induction js arbitrary: cl pml g0 dgs)
  case Nil
  then show ?case by simp
next
  case (Cons j js)
  let ?dg = "(loss_fn (plus_point T est seed j) bi lb
               - loss_fn (minus_point T est seed j) bi lb) / (mu est * df)"
  let ?g1 = "Some (case g0 of None \<Rightarrow> scale ?dg (direction T est seed j)
                   | Some g \<Rightarrow> axpy 1 (scale ?dg (direction T est seed j)) g)"
  from Cons.IH [of "cl @ [plus_point T est seed j, minus_point T est seed j]"
      "Some (loss_fn (minus_point T est seed j) bi lb)" ?g1 "dgs @ [?dg]"]
  obtain pml' g' where
    "zo_grad_estimate_loop T loss_fn bi lb seed df js est
        (cl @ [plus_point T est seed j, minus_point T est seed j])
        (Some (loss_fn (minus_point T est seed j) bi lb), ?g1, dgs @ [?dg])
       = (Inr (pml', g',
               (dgs @ [?dg]) @ map (\<lambda>i. (loss_fn (plus_point T est seed i) bi lb
                                 - loss_fn (minus_point T est seed i) bi lb) / (mu est * df)) js),
          est, (cl @ [plus_point T est seed j, minus_point T est seed j])
                 @ concat (map (\<lambda>i. [plus_point T est seed i, minus_point T est seed i]) js))"
    and "g' \<noteq> None"
    by blast
  then show ?case
    by (simp add: zo_grad_estimate_step_central [OF wf m])
qed

lemma zo_grad_estimate_loop_forward:
  assumes wf: "wf_estimator est" and m: "grad_estimate_method est = rge_forward"
  shows "\<exists>g'.
     zo_grad_estimate_loop T loss_fn bi lb seed df js est cl (Some l0, g0, dgs)
       = (Inr (Some l0, g',
               dgs @ map (\<lambda>i. (loss_fn (plus_point T est seed i) bi lb - l0) / (mu est * df)) js),
          est, cl @ map (plus_point T est seed) js)
     \<and> (js \<noteq> [] \<or> g0 \<noteq> None \<longrightarrow> g' \<noteq> None)"
proof (induction js arbitrary: cl g0 dgs)
  case Nil
  then show ?case by simp
next
  case (Cons j js)
  let ?dg = "(loss_fn (plus_point T est seed j) bi lb - l0) / (mu est * df)"
  let ?g1 = "Some (case g0 of None \<Rightarrow> scale ?dg (direction T est seed j)
                   | Some g \<Rightarrow> axpy 1 (scale ?dg (direction T est seed j)) g)"
  from Cons.IH [of "cl @ [plus_point T est seed j]" ?g1 "dgs @ [?dg]"]
  obtain g' where
    "zo_grad_estimate_loop T loss_fn bi lb seed df js est
        (cl @ [plus_point T est seed j]) (Some l0, ?g1, dgs @ [?dg])
       = (Inr (Some l0, g',
               (dgs @ [?dg]) @ map (\<lambda>i. (loss_fn (plus_point T est seed i) bi lb - l0)
                                            / (mu est * df)) js),
          est, (cl @ [plus_point T est seed j]) @ map (plus_point T est seed) js)"
    and "g' \<noteq> None"
    by blast
  then show ?case
    by (simp add: zo_grad_estimate_step_forward [OF wf m])
qed

lemma zo_grad_estimate_central:
  assumes wf: "wf_estimator est" and m: "grad_estimate_method est = rge_central"
    and n: "0 < num_pert est"
  shows "\<exists>g. zo_grad_estimate T loss_fn bi lb seed est cl
     = (Inr (g, map (directional_gradient T loss_fn bi lb seed est) [0..<num_pert est]),
        est,
        cl @ concat (map (\<lambda>i. [plus_point T est seed i, minus_point T est seed i])
                       [0..<num_pert est]))"
proof -
  from n have ne: "[0..<num_pert est] \<noteq> []" by simp
  obtain pml' g' where
    loop: "zo_grad_estimate_loop T loss_fn bi lb seed 2 [0..<num_pert est] est cl (None, None, [])
       = (Inr (pml', g',
               [] @ map (\<lambda>i. (loss_fn (plus_point T est seed i) bi lb
                                 - loss_fn (minus_point T est seed i) bi lb) / (mu est * 2))
                      [0..<num_pert est]),
          est, cl @ concat (map (\<lambda>i. [plus_point T est seed i, minus_point T est seed i])
                              [0..<num_pert est]))"
    and g: "g' \<noteq> None"
    using zo_grad_estimate_loop_central [OF wf m, of T loss_fn bi lb seed 2 "[0..<num_pert est]"
        cl None None "[]"] ne
    by blast
  from g obtain gv where gv: "g' = Some gv" by blast
  show ?thesis
    unfolding zo_grad_estimate_def Let_def
    by (simp add: m loop gv directional_gradient_def)
qed

lemma zo_grad_estimate_forward:
  assumes wf: "wf_estimator est" and m: "grad_estimate_method est = rge_forward"
    and n: "0 < num_pert est"
  shows "\<exists>g. zo_grad_estimate T loss_fn bi lb seed est cl
     = (Inr (g, map (directional_gradient T loss_fn bi lb seed est) [0..<num_pert est]),
        est,
        cl @ values_of est # map (plus_point T est seed) [0..<num_pert est])"
proof -
  from n have ne: "[0..<num_pert est] \<noteq> []" by simp
  obtain g' where
    loop: "zo_grad_estimate_loop T loss_fn bi lb seed 1 [0..<num_pert est] est
             (cl @ [values_of est]) (Some (loss_fn (values_of est) bi lb), None, [])
       = (Inr (Some (loss_fn (values_of est) bi lb), g',
               [] @ map (\<lambda>i. (loss_fn (plus_point T est seed i) bi lb
                                 - loss_fn (values_of est) bi lb) / (mu est * 1))
                      [0..<num_pert est]),
          est, (cl @ [values_of est]) @ map (plus_point T est seed) [0..<num_pert est])"
    and g: "g' \<noteq> None"
    using zo_grad_estimate_loop_forward [OF wf m, of T loss_fn bi lb seed 1 "[0..<num_pert est]"
        "cl @ [values_of est]" "loss_fn (values_of est) bi lb" None "[]"] ne
    by blast
  from g obtain gv where gv: "g' = Some gv" by blast
  show ?thesis
    unfolding zo_grad_estimate_def Let_def
    using loop
    by (simp add: m gv directional_gradient_def call_loss_def values_of_def)
qed

lemma zo_grad_estimate_none:
  assumes "num_pert est = 0"
  shows "zo_grad_estimate T loss_fn bi lb seed est cl
     = (Inl AssertionError, est,
        cl @ (if grad_estimate_method est = rge_forward then [values_of est] else []))"
  using assms
  by (simp add: zo_grad_estimate_def Let_def call_loss_def values_of_def)


lemma values_of_moved_each:
  "values_of (set_values est (perturbed_each alpha (direction_paramwise T est seed i) (values_of est)))
     = perturbed_each alpha (direction_paramwise T est seed i) (values_of est)"
proof -
  have "length (perturbed_each alpha (direction_paramwise T est seed i) (values_of est))
          = length (parameters_list est)"
    by (simp add: length_perturbed_each direction_paramwise_def values_of_def)
  then show ?thesis by (rule values_of_set_values)
qed

lemma paramwise_moves:
  assumes wf: "wf_estimator est"
  shows "fst (perturb_model_paramwise T est (get_rng T seed (int i)) (mu est))
           = set_values est (plus_point_paramwise T est seed i)"
    and "fst (perturb_model_paramwise T (set_values est (plus_point_paramwise T est seed i))
                (get_rng T seed (int i)) (- (2 * mu est)))
           = set_values est (minus_point_paramwise T est seed i)"
    and "fst (perturb_model_paramwise T (set_values est (minus_point_paramwise T est seed i))
                (get_rng T seed (int i)) (mu est)) = est"
    and "fst (perturb_model_paramwise T (set_values est (plus_point_paramwise T est seed i))
                (get_rng T seed (int i)) (- mu est)) = est"
proof -
  show "fst (perturb_model_paramwise T est (get_rng T seed (int i)) (mu est))
          = set_values est (plus_point_paramwise T est seed i)"
    by (simp add: perturb_model_paramwise_fst plus_point_paramwise_def direction_paramwise_def)
  show "fst (perturb_model_paramwise T (set_values est (plus_point_paramwise T est seed i))
               (get_rng T seed (int i)) (- (2 * mu est)))
          = set_values est (minus_point_paramwise T est seed i)"
    using perturb_model_paramwise_again [of T est "mu est" "get_rng T seed (int i)" "- (2 * mu est)"]
    by (simp add: plus_point_paramwise_def minus_point_paramwise_def direction_paramwise_def)
  show "fst (perturb_model_paramwise T (set_values est (minus_point_paramwise T est seed i))
               (get_rng T seed (int i)) (mu est)) = est"
    using perturb_model_paramwise_again [of T est "- mu est" "get_rng T seed (int i)" "mu est"]
      set_values_perturbed_each_zero [OF wf, of T "get_rng T seed (int i)"]
    by (simp add: minus_point_paramwise_def direction_paramwise_def)
  show "fst (perturb_model_paramwise T (set_values est (plus_point_paramwise T est seed i))
               (get_rng T seed (int i)) (- mu est)) = est"
    using perturb_model_paramwise_again [of T est "mu est" "get_rng T seed (int i)" "- mu est"]
      set_values_perturbed_each_zero [OF wf, of T "get_rng T seed (int i)"]
    by (simp add: plus_point_paramwise_def direction_paramwise_def)
qed

lemma call_loss_at:
  "values_of est' = xs \<Longrightarrow> call_loss loss_fn bi lb est' cl = (loss_fn xs bi lb, cl @ [xs])"
  by (simp add: call_loss_def values_of_def)

lemma zo_grad_estimate_paramwise_step_central:
  assumes wf: "wf_estimator est" and m: "grad_estimate_method est = rge_central"
  shows "zo_grad_estimate_paramwise_step T loss_fn bi lb seed df est cl (pml, dgs) i
     = (Inr (Some (loss_fn (minus_point_paramwise T est seed i) bi lb),
             dgs @ [(loss_fn (plus_point_paramwise T est seed i) bi lb
                       - loss_fn (minus_point_paramwise T est seed i) bi lb) / (mu est * df)]),
        est, cl @ [plus_point_paramwise T est seed i, minus_point_paramwise T est seed i])"
proof -
  have v1: "values_of (set_values est (plus_point_paramwise T est seed i))
              = plus_point_paramwise T est seed i"
    by (simp add: plus_point_paramwise_def values_of_moved_each)
  have v2: "values_of (set_values est (minus_point_paramwise T est seed i))
              = minus_point_paramwise T est seed i"
    by (simp add: minus_point_paramwise_def values_of_moved_each)
  show ?thesis
    unfolding zo_grad_estimate_paramwise_step_def Let_def
    by (simp add: paramwise_moves [OF wf] m call_loss_at [OF v1] call_loss_at [OF v2])
qed

lemma zo_grad_estimate_paramwise_step_forward:
  assumes wf: "wf_estimator est" and m: "grad_estimate_method est = rge_forward"
  shows "zo_grad_estimate_paramwise_step T loss_fn bi lb seed df est cl (Some l0, dgs) i
     = (Inr (Some l0,
             dgs @ [(loss_fn (plus_point_paramwise T est seed i) bi lb - l0) / (mu est * df)]),
        est, cl @ [plus_point_paramwise T est seed i])"
proof -
  have v1: "values_of (set_values est (plus_point_paramwise T est seed i))
              = plus_point_paramwise T est seed i"
    by (simp add: plus_point_paramwise_def values_of_moved_each)
  show ?thesis
    unfolding zo_grad_estimate_paramwise_step_def Let_def
    by (simp add: paramwise_moves [OF wf] m call_loss_at [OF v1])
qed

lemma zo_grad_estimate_paramwise_loop_central:
  assumes wf: "wf_estimator est" and m: "grad_estimate_method est = rge_central"
  shows "\<exists>pml'.
     zo_grad_estimate_paramwise_loop T loss_fn bi lb seed df js est cl (pml, dgs)
       = (Inr (pml',
               dgs @ map (\<lambda>i. (loss_fn (plus_point_paramwise T est seed i) bi lb
                                 - loss_fn (minus_point_paramwise T est seed i) bi lb)
                                / (mu est * df)) js),
          est,
          cl @ concat (map (\<lambda>i. [plus_point_paramwise T est seed i,
                                   minus_point_paramwise T est seed i]) js))"
proof (induction js arbitrary: cl pml dgs)
  case Nil
  then show ?case by simp
next
  case (Cons j js)
  let ?dg = "(loss_fn (plus_point_paramwise T est seed j) bi lb
               - loss_fn (minus_point_paramwise T est seed j) bi lb) / (mu est * df)"
  from Cons.IH [of "cl @ [plus_point_paramwise T est seed j, minus_point_paramwise T est seed j]"
      "Some (loss_fn (minus_point_paramwise T est seed j) bi lb)" "dgs @ [?dg]"]
  obtain pml' where
    "zo_grad_estimate_paramwise_loop T loss_fn bi lb seed df js est
        (cl @ [plus_point_paramwise T est seed j, minus_point_paramwise T est seed j])
        (Some (loss_fn (minus_point_paramwise T est seed j) bi lb), dgs @ [?dg])
       = (Inr (pml',
               (dgs @ [?dg]) @ map (\<lambda>i. (loss_fn (plus_point_paramwise T est seed i) bi lb
                                 - loss_fn (minus_point_paramwise T est seed i) bi lb)
                                / (mu est * df)) js),
          est,
          (cl @ [plus_point_paramwise T est seed j, minus_point_paramwise T est seed j])
            @ concat (map (\<lambda>i. [plus_point_paramwise T est seed i,
                                     minus_point_paramwise T est seed i]) js))"
    by blast
  then show ?case
    by (simp add: zo_grad_estimate_paramwise_step_central [OF wf m])
qed

lemma zo_grad_estimate_paramwise_loop_forward:
  assumes wf: "wf_estimator est" and m: "grad_estimate_method est = rge_forward"
  shows "zo_grad_estimate_paramwise_loop T loss_fn bi lb seed df js est cl (Some l0, dgs)
       = (Inr (Some l0,
               dgs @ map (\<lambda>i. (loss_fn (plus_point_paramwise T est seed i) bi lb - l0)
                                / (mu est * df)) js),
          est, cl @ map (plus_point_paramwise T est seed) js)"
proof (induction js arbitrary: cl dgs)
  case Nil
  then show ?case by simp
next
  case (Cons j js)
  show ?case
    by (simp add: zo_grad_estimate_paramwise_step_forward [OF wf m] Cons.IH)
qed

lemma zo_grad_estimate_paramwise_central:
  assumes wf: "wf_estimator est" and m: "grad_estimate_method est = rge_central"
  shows "zo_grad_estimate_paramwise T loss_fn bi lb seed est cl
     = (Inr (map (directional_gradient_paramwise T loss_fn bi lb seed est) [0..<num_pert est]),
        est,
        cl @ concat (map (\<lambda>i. [plus_point_paramwise T est seed i,
                                 minus_point_paramwise T est seed i]) [0..<num_pert est]))"
proof -
  obtain pml' where
    loop: "zo_grad_estimate_paramwise_loop T loss_fn bi lb seed 2 [0..<num_pert est] est cl
             (None, [])
       = (Inr (pml',
               [] @ map (\<lambda>i. (loss_fn (plus_point_paramwise T est seed i) bi lb
                                 - loss_fn (minus_point_paramwise T est seed i) bi lb)
                                / (mu est * 2)) [0..<num_pert est]),
          est,
          cl @ concat (map (\<lambda>i. [plus_point_paramwise T est seed i,
                                   minus_point_paramwise T est seed i]) [0..<num_pert est]))"
    using zo_grad_estimate_paramwise_loop_central [OF wf m, of T loss_fn bi lb seed 2
        "[0..<num_pert est]" cl None "[]"]
    by blast
  show ?thesis
    unfolding zo_grad_estimate_paramwise_def Let_def
    by (simp add: m loop directional_gradient_paramwise_def)
qed

lemma zo_grad_estimate_paramwise_forward:
  assumes wf: "wf_estimator est" and m: "grad_estimate_method est = rge_forward"
  shows "zo_grad_estimate_paramwise T loss_fn bi lb seed est cl
     = (Inr (map (directional_gradient_paramwise T loss_fn bi lb seed est) [0..<num_pert est]),
        est,
        cl @ values_of est # map (plus_point_paramwise T est seed) [0..<num_pert est])"
  unfolding zo_grad_estimate_paramwise_def Let_def
  by (simp add: m call_loss_def zo_grad_estimate_paramwise_loop_forward [OF wf m]
      directional_gradient_paramwise_def values_of_def)

subsection \<open>The formula of the directional gradient\<close>

lemmas instance_defs = stream_rng_def small_est_def two_params_def sum_loss_def get_rng_def
  randn_def generate_perturbation_norm_def direction_def direction_paramwise_def values_of_def
  numel_def

text \<open>
  C2.  For every perturbation index \<open>i < num_pert\<close>, the estimate returns, at position
  \<open>i\<close> of the directional gradients, \<open>(L_plus - L_minus) / (mu * denom)\<close>: \<open>L_plus\<close> is
  the loss at the parameters moved by \<open>+ mu\<close> times direction \<open>i\<close>, \<open>denom\<close> is 2 in
  central and 1 in forward mode, and \<open>L_minus\<close> is, in central mode, the loss at the
  parameters moved by \<open>- mu\<close> times direction \<open>i\<close> (in forward mode, the loss at the
  unperturbed parameters).  The loss is called at exactly these points, in this order,
  and the parameters are back at their values afterwards.  This holds for
  \<^verbatim>\<open>_zo_grad_estimate\<close> with the flat direction and for
  \<^verbatim>\<open>_zo_grad_estimate_paramwise\<close> with the per-parameter draws.
\<close>

theorem directional_gradient_formula:
  assumes "wf_estimator est" and "i < num_pert est"
  shows "(\<exists>g dgs.
            zo_grad_estimate T loss_fn bi lb seed est cl
              = (Inr (g, dgs), est,
                 cl @ (case grad_estimate_method est of
                         rge_central \<Rightarrow>
                           concat (map (\<lambda>j. [perturbed (mu est) (direction T est seed j)
                                                 (values_of est),
                                               perturbed (- mu est) (direction T est seed j)
                                                 (values_of est)]) [0..<num_pert est])
                       | rge_forward \<Rightarrow>
                           values_of est
                             # map (\<lambda>j. perturbed (mu est) (direction T est seed j)
                                           (values_of est)) [0..<num_pert est]))
          \<and> length dgs = num_pert est
          \<and> dgs ! i
              = (loss_fn (perturbed (mu est) (direction T est seed i) (values_of est)) bi lb
                  - (case grad_estimate_method est of
                       rge_central \<Rightarrow>
                         loss_fn (perturbed (- mu est) (direction T est seed i) (values_of est))
                           bi lb
                     | rge_forward \<Rightarrow> loss_fn (values_of est) bi lb))
                / (mu est * (case grad_estimate_method est of
                               rge_central \<Rightarrow> 2 | rge_forward \<Rightarrow> 1)))
       \<and> (list_all (\<lambda>p. shape p \<noteq> []) (parameters_list est) \<longrightarrow>
           (\<exists>dgs.
              zo_grad_estimate_paramwise T loss_fn bi lb seed est cl
                = (Inr dgs, est,
                   cl @ (case grad_estimate_method est of
                           rge_central \<Rightarrow>
                             concat (map (\<lambda>j. [perturbed_each (mu est)
                                                   (direction_paramwise T est seed j)
                                                   (values_of est),
                                                 perturbed_each (- mu est)
                                                   (direction_paramwise T est seed j)
                                                   (values_of est)]) [0..<num_pert est])
                         | rge_forward \<Rightarrow>
                             values_of est
                               # map (\<lambda>j. perturbed_each (mu est)
                                             (direction_paramwise T est seed j)
                                             (values_of est)) [0..<num_pert est]))
            \<and> length dgs = num_pert est
            \<and> dgs ! i
                = (loss_fn (perturbed_each (mu est) (direction_paramwise T est seed i)
                              (values_of est)) bi lb
                    - (case grad_estimate_method est of
                         rge_central \<Rightarrow>
                           loss_fn (perturbed_each (- mu est) (direction_paramwise T est seed i)
                                      (values_of est)) bi lb
                       | rge_forward \<Rightarrow> loss_fn (values_of est) bi lb))
                  / (mu est * (case grad_estimate_method est of
                                 rge_central \<Rightarrow> 2 | rge_forward \<Rightarrow> 1))))"
proof (intro conjI impI)
  from assms(2) have n: "0 < num_pert est" by simp
  show "\<exists>g dgs.
            zo_grad_estimate T loss_fn bi lb seed est cl
              = (Inr (g, dgs), est,
                 cl @ (case grad_estimate_method est of
                         rge_central \<Rightarrow>
                           concat (map (\<lambda>j. [perturbed (mu est) (direction T est seed j)
                                                 (values_of est),
                                               perturbed (- mu est) (direction T est seed j)
                                                 (values_of est)]) [0..<num_pert est])
                       | rge_forward \<Rightarrow>
                           values_of est
                             # map (\<lambda>j. perturbed (mu est) (direction T est seed j)
                                           (values_of est)) [0..<num_pert est]))
          \<and> length dgs = num_pert est
          \<and> dgs ! i
              = (loss_fn (perturbed (mu est) (direction T est seed i) (values_of est)) bi lb
                  - (case grad_estimate_method est of
                       rge_central \<Rightarrow>
                         loss_fn (perturbed (- mu est) (direction T est seed i) (values_of est))
                           bi lb
                     | rge_forward \<Rightarrow> loss_fn (values_of est) bi lb))
                / (mu est * (case grad_estimate_method est of
                               rge_central \<Rightarrow> 2 | rge_forward \<Rightarrow> 1))"
  proof (cases "grad_estimate_method est")
    case rge_central
    from zo_grad_estimate_central [OF assms(1) rge_central n, of T loss_fn bi lb seed cl]
    obtain g where
      "zo_grad_estimate T loss_fn bi lb seed est cl
         = (Inr (g, map (directional_gradient T loss_fn bi lb seed est) [0..<num_pert est]), est,
            cl @ concat (map (\<lambda>i. [plus_point T est seed i, minus_point T est seed i])
                           [0..<num_pert est]))"
      by blast
    then show ?thesis
      using assms(2) rge_central
      by (simp add: directional_gradient_def plus_point_def minus_point_def)
  next
    case rge_forward
    from zo_grad_estimate_forward [OF assms(1) rge_forward n, of T loss_fn bi lb seed cl]
    obtain g where
      "zo_grad_estimate T loss_fn bi lb seed est cl
         = (Inr (g, map (directional_gradient T loss_fn bi lb seed est) [0..<num_pert est]), est,
            cl @ values_of est # map (plus_point T est seed) [0..<num_pert est])"
      by blast
    then show ?thesis
      using assms(2) rge_forward
      by (simp add: directional_gradient_def plus_point_def)
  qed
next
  show "\<exists>dgs.
              zo_grad_estimate_paramwise T loss_fn bi lb seed est cl
                = (Inr dgs, est,
                   cl @ (case grad_estimate_method est of
                           rge_central \<Rightarrow>
                             concat (map (\<lambda>j. [perturbed_each (mu est)
                                                   (direction_paramwise T est seed j)
                                                   (values_of est),
                                                 perturbed_each (- mu est)
                                                   (direction_paramwise T est seed j)
                                                   (values_of est)]) [0..<num_pert est])
                         | rge_forward \<Rightarrow>
                             values_of est
                               # map (\<lambda>j. perturbed_each (mu est)
                                             (direction_paramwise T est seed j)
                                             (values_of est)) [0..<num_pert est]))
            \<and> length dgs = num_pert est
            \<and> dgs ! i
                = (loss_fn (perturbed_each (mu est) (direction_paramwise T est seed i)
                              (values_of est)) bi lb
                    - (case grad_estimate_method est of
                         rge_central \<Rightarrow>
                           loss_fn (perturbed_each (- mu est) (direction_paramwise T est seed i)
                                      (values_of est)) bi lb
                       | rge_forward \<Rightarrow> loss_fn (values_of est) bi lb))
                  / (mu est * (case grad_estimate_method est of
                                 rge_central \<Rightarrow> 2 | rge_forward \<Rightarrow> 1))"
  proof (cases "grad_estimate_method est")
    case rge_central
    show ?thesis
      using assms(2) rge_central
      by (simp add: zo_grad_estimate_paramwise_central [OF assms(1) rge_central]
          directional_gradient_paramwise_def plus_point_paramwise_def
          minus_point_paramwise_def)
  next
    case rge_forward
    show ?thesis
      using assms(2) rge_forward
      by (simp add: zo_grad_estimate_paramwise_forward [OF assms(1) rge_forward]
          directional_gradient_paramwise_def plus_point_paramwise_def)
  qed
qed


theorem directional_gradient_formula_witness:
  "wf_estimator (small_est rge_central False)
   \<and> (1::nat) < num_pert (small_est rge_central False)
   \<and> list_all (\<lambda>p. shape p \<noteq> []) (parameters_list (small_est rge_central False))
   \<and> (\<exists>g dgs cl'.
         zo_grad_estimate stream_rng sum_loss () () 42 (small_est rge_central False) []
           = (Inr (g, dgs), small_est rge_central False, cl')
         \<and> length dgs = 2 \<and> dgs ! 1 = - 2)
   \<and> (\<exists>dgs cl'.
         zo_grad_estimate_paramwise stream_rng sum_loss () () 42 (small_est rge_central False) []
           = (Inr dgs, small_est rge_central False, cl')
         \<and> length dgs = 2 \<and> dgs ! 1 = - 2)"
proof -
  let ?E = "small_est rge_central False"
  have wf: "wf_estimator ?E" by (rule wf_small_est)
  have i: "(1::nat) < num_pert ?E" by (simp add: small_est_def)
  have sh: "list_all (\<lambda>p. shape p \<noteq> []) (parameters_list ?E)" by (rule shapes_small_est)
  have m: "grad_estimate_method ?E = rge_central" and n: "num_pert ?E = 2"
    and mu: "mu ?E = 1 / 2"
    by (simp_all add: small_est_def)
  have v1: "(sum_loss (perturbed (1 / 2) (direction stream_rng ?E 42 1) (values_of ?E)) () ()
              - sum_loss (perturbed (- (1 / 2)) (direction stream_rng ?E 42 1) (values_of ?E)) () ())
            / (1 / 2 * 2) = - 2"
    by (simp add: instance_defs upt_rec)
  have v2: "(sum_loss (perturbed_each (1 / 2) (direction_paramwise stream_rng ?E 42 1)
                         (values_of ?E)) () ()
              - sum_loss (perturbed_each (- (1 / 2)) (direction_paramwise stream_rng ?E 42 1)
                            (values_of ?E)) () ())
            / (1 / 2 * 2) = - 2"
    by (simp add: instance_defs upt_rec)
  from directional_gradient_formula [OF wf i, of stream_rng sum_loss "()" "()" 42 "[]"] sh
  have whole: "\<exists>g dgs cl'.
         zo_grad_estimate stream_rng sum_loss () () 42 ?E [] = (Inr (g, dgs), ?E, cl')
         \<and> length dgs = 2 \<and> dgs ! 1 = - 2"
    and each: "\<exists>dgs cl'.
         zo_grad_estimate_paramwise stream_rng sum_loss () () 42 ?E [] = (Inr dgs, ?E, cl')
         \<and> length dgs = 2 \<and> dgs ! 1 = - 2"
    unfolding m n mu using v1 v2 by auto
  from wf i sh whole each show ?thesis by blast
qed

subsection \<open>The baseline of forward mode\<close>

text \<open>
  C7.  In forward mode the loss is called once at the unperturbed parameters, before
  anything else, and then exactly once per direction, at the parameters moved by \<open>+ mu\<close>
  times that direction: the recorded calls of a step are the unperturbed point followed
  by the \<open>num_pert\<close> plus points, so there is no minus evaluation per direction.  The
  value of that first call is the \<open>L_minus\<close> of every direction.  This holds for
  \<^verbatim>\<open>_zo_grad_estimate\<close> and for \<^verbatim>\<open>_zo_grad_estimate_paramwise\<close>.
\<close>

theorem forward_baseline_evaluated_once:
  assumes "wf_estimator est" and "grad_estimate_method est = rge_forward"
  shows "snd (snd (zo_grad_estimate T loss_fn bi lb seed est cl))
           = cl @ values_of est
               # map (\<lambda>j. perturbed (mu est) (direction T est seed j) (values_of est))
                   [0..<num_pert est]
       \<and> (0 < num_pert est \<longrightarrow>
            (\<exists>g. fst (zo_grad_estimate T loss_fn bi lb seed est cl)
                   = Inr (g, map (\<lambda>j. (loss_fn (perturbed (mu est) (direction T est seed j)
                                                   (values_of est)) bi lb
                                         - loss_fn (values_of est) bi lb) / (mu est * 1))
                               [0..<num_pert est])))
       \<and> (list_all (\<lambda>p. shape p \<noteq> []) (parameters_list est) \<longrightarrow>
            zo_grad_estimate_paramwise T loss_fn bi lb seed est cl
              = (Inr (map (\<lambda>j. (loss_fn (perturbed_each (mu est)
                                             (direction_paramwise T est seed j)
                                             (values_of est)) bi lb
                                  - loss_fn (values_of est) bi lb) / (mu est * 1))
                        [0..<num_pert est]),
                 est,
                 cl @ values_of est
                   # map (\<lambda>j. perturbed_each (mu est) (direction_paramwise T est seed j)
                                 (values_of est)) [0..<num_pert est]))"
proof (intro conjI impI)
  show "snd (snd (zo_grad_estimate T loss_fn bi lb seed est cl))
           = cl @ values_of est
               # map (\<lambda>j. perturbed (mu est) (direction T est seed j) (values_of est))
                   [0..<num_pert est]"
  proof (cases "num_pert est = 0")
    case True
    then show ?thesis
      using assms(2) by (simp add: zo_grad_estimate_none)
  next
    case False
    then have n: "0 < num_pert est" by simp
    from zo_grad_estimate_forward [OF assms n, of T loss_fn bi lb seed cl]
    show ?thesis by (auto simp add: plus_point_def)
  qed
next
  assume n: "0 < num_pert est"
  from zo_grad_estimate_forward [OF assms n, of T loss_fn bi lb seed cl]
  show "\<exists>g. fst (zo_grad_estimate T loss_fn bi lb seed est cl)
                   = Inr (g, map (\<lambda>j. (loss_fn (perturbed (mu est) (direction T est seed j)
                                                   (values_of est)) bi lb
                                         - loss_fn (values_of est) bi lb) / (mu est * 1))
                               [0..<num_pert est])"
    using assms(2) by (auto simp add: directional_gradient_def plus_point_def)
next
  show "zo_grad_estimate_paramwise T loss_fn bi lb seed est cl
              = (Inr (map (\<lambda>j. (loss_fn (perturbed_each (mu est)
                                             (direction_paramwise T est seed j)
                                             (values_of est)) bi lb
                                  - loss_fn (values_of est) bi lb) / (mu est * 1))
                        [0..<num_pert est]),
                 est,
                 cl @ values_of est
                   # map (\<lambda>j. perturbed_each (mu est) (direction_paramwise T est seed j)
                                 (values_of est)) [0..<num_pert est])"
    using assms(2)
    by (simp add: zo_grad_estimate_paramwise_forward [OF assms]
        directional_gradient_paramwise_def plus_point_paramwise_def)
qed

theorem forward_baseline_evaluated_once_witness:
  "wf_estimator (small_est rge_forward False)
   \<and> grad_estimate_method (small_est rge_forward False) = rge_forward
   \<and> 0 < num_pert (small_est rge_forward False)
   \<and> list_all (\<lambda>p. shape p \<noteq> []) (parameters_list (small_est rge_forward False))
   \<and> snd (snd (zo_grad_estimate stream_rng sum_loss () () 42 (small_est rge_forward False) []))
        = [[[1, 2], [3]], [[1 / 2, 2], [7 / 2]], [[1, 5 / 2], [5 / 2]]]
   \<and> (\<exists>g. fst (zo_grad_estimate stream_rng sum_loss () () 42 (small_est rge_forward False) [])
             = Inr (g, [5, - 1]))
   \<and> zo_grad_estimate_paramwise stream_rng sum_loss () () 42 (small_est rge_forward False) []
        = (Inr [5, - 1], small_est rge_forward False,
           [[[1, 2], [3]], [[1 / 2, 2], [7 / 2]], [[1, 5 / 2], [5 / 2]]])"
proof -
  let ?E = "small_est rge_forward False"
  have wf: "wf_estimator ?E" by (rule wf_small_est)
  have m: "grad_estimate_method ?E = rge_forward" by (simp add: small_est_def)
  have n: "0 < num_pert ?E" by (simp add: small_est_def)
  have sh: "list_all (\<lambda>p. shape p \<noteq> []) (parameters_list ?E)" by (rule shapes_small_est)
  have pts: "values_of ?E
               # map (\<lambda>j. perturbed (mu ?E) (direction stream_rng ?E 42 j) (values_of ?E))
                   [0..<num_pert ?E]
             = [[[1, 2], [3]], [[1 / 2, 2], [7 / 2]], [[1, 5 / 2], [5 / 2]]]"
    by (simp add: instance_defs upt_rec)
  have pts': "values_of ?E
               # map (\<lambda>j. perturbed_each (mu ?E) (direction_paramwise stream_rng ?E 42 j)
                             (values_of ?E)) [0..<num_pert ?E]
             = [[[1, 2], [3]], [[1 / 2, 2], [7 / 2]], [[1, 5 / 2], [5 / 2]]]"
    by (simp add: instance_defs upt_rec)
  have dgs: "map (\<lambda>j. (sum_loss (perturbed (mu ?E) (direction stream_rng ?E 42 j)
                                    (values_of ?E)) () ()
                         - sum_loss (values_of ?E) () ()) / (mu ?E * 1)) [0..<num_pert ?E]
             = [5, - 1]"
    by (simp add: instance_defs upt_rec)
  have dgs': "map (\<lambda>j. (sum_loss (perturbed_each (mu ?E) (direction_paramwise stream_rng ?E 42 j)
                                    (values_of ?E)) () ()
                         - sum_loss (values_of ?E) () ()) / (mu ?E * 1)) [0..<num_pert ?E]
             = [5, - 1]"
    by (simp add: instance_defs upt_rec)
  from forward_baseline_evaluated_once [OF wf m, of stream_rng sum_loss "()" "()" 42 "[]"]
  show ?thesis
    unfolding pts pts' dgs dgs' using wf m n sh by simp
qed

section \<open>Gradient injection\<close>

lemma with_grads_simps [simp]:
  "with_grads [] gs = []"
  "with_grads ps [] = []"
  "with_grads (p # ps) (g # gs) = p\<lparr>grad := Some g\<rparr> # with_grads ps gs"
  by (simp_all add: with_grads_def)

lemma length_pieces [simp]: "length (pieces v ns) = length ns"
  by (induction ns arbitrary: v) simp_all

lemma length_with_grads: "length gs = length ps \<Longrightarrow> length (with_grads ps gs) = length ps"
  by (simp add: with_grads_def)

lemma with_grads_with_grads:
  "length gs = length ps \<Longrightarrow> with_grads (with_grads ps gs) hs = with_grads ps hs"
proof (induction ps gs arbitrary: hs rule: list_induct2')
  case (4 p ps g gs)
  then show ?case by (cases hs) simp_all
qed simp_all

lemma map_shape_with_grads:
  "length gs = length ps \<Longrightarrow> map shape (with_grads ps gs) = map shape ps"
  by (induction ps gs rule: list_induct2') simp_all

lemma map_data_with_grads:
  "length gs = length ps \<Longrightarrow> map data (with_grads ps gs) = map data ps"
  by (induction ps gs rule: list_induct2') simp_all

lemma list_all_grad_with_grads:
  "length gs = length ps \<Longrightarrow> list_all (\<lambda>p. grad p \<noteq> None) (with_grads ps gs)"
  by (induction ps gs rule: list_induct2') simp_all

lemma put_grad_loop_ok:
  "start + sum_list (map numel ps) \<le> length g \<Longrightarrow>
   put_grad_loop g start ps = (Inr (), with_grads ps (pieces (drop start g) (map numel ps)))"
proof (induction ps arbitrary: start)
  case Nil
  then show ?case by simp
next
  case (Cons p ps)
  from Cons.prems have bound: "(start + numel p) + sum_list (map numel ps) \<le> length g"
    by simp
  have v: "view (slice g start (start + numel p)) (shape p) = Inr (take (numel p) (drop start g))"
    using bound by (simp add: view_def slice_def numel_def)
  show ?case
    using Cons.IH [OF bound] v by (simp add: add.commute)
qed

lemma put_grad_ok:
  assumes "wf_estimator est" and "length g = total_dimensions est"
  shows "put_grad est g
           = (Inr (), est\<lparr>parameters_list :=
                            with_grads (parameters_list est)
                              (pieces g (map numel (parameters_list est)))\<rparr>)"
  using assms put_grad_loop_ok [of 0 "parameters_list est" g]
  by (simp add: put_grad_def wf_estimator_def)

lemma length_scale [simp]: "length (scale c v) = length v"
  by (simp add: scale_def)

lemma length_axpy: "length v = length u \<Longrightarrow> length (axpy c v u) = length u"
  by (simp add: axpy_def)

lemma nth_scale: "j < length v \<Longrightarrow> scale c v ! j = c * v ! j"
  by (simp add: scale_def)

lemma nth_axpy: "j < length u \<Longrightarrow> j < length v \<Longrightarrow> axpy c v u ! j = u ! j + c * v ! j"
  by (simp add: axpy_def)

lemma generate_update_grad_sum:
  "length u = total_dimensions est \<Longrightarrow>
   generate_update_grad T est seed n (Some u) (enumerate a xs)
     = Some (map (\<lambda>j. u ! j + (\<Sum>i<length xs. direction T est seed (a + i) ! j
                                                 * (xs ! i / real n)))
               [0..<total_dimensions est])"
proof (induction xs arbitrary: a u)
  case Nil
  then show ?case using map_nth [of u] by simp
next
  case (Cons x xs)
  let ?u = "axpy 1 (scale (x / real n) (direction T est seed a)) u"
  have len: "length ?u = total_dimensions est"
    using Cons.prems by (simp add: length_axpy)
  have nth: "\<And>j. j < total_dimensions est \<Longrightarrow>
               ?u ! j = u ! j + direction T est seed a ! j * (x / real n)"
    using Cons.prems by (simp add: nth_axpy nth_scale)
  have "generate_update_grad T est seed n (Some u) (enumerate a (x # xs))
          = generate_update_grad T est seed n (Some ?u) (enumerate (Suc a) xs)"
    by (simp add: Let_def direction_def)
  also have "\<dots> = Some (map (\<lambda>j. ?u ! j + (\<Sum>i<length xs. direction T est seed (Suc a + i) ! j
                                                 * (xs ! i / real n)))
               [0..<total_dimensions est])"
    by (rule Cons.IH [OF len])
  also have "\<dots> = Some (map (\<lambda>j. u ! j + (\<Sum>i<length (x # xs).
                                                direction T est seed (a + i) ! j
                                                 * ((x # xs) ! i / real n)))
               [0..<total_dimensions est])"
    by (simp add: nth sum.lessThan_Suc_shift add.assoc del: sum.lessThan_Suc)
  finally show ?case .
qed

lemma generate_update_grad_start:
  assumes "xs \<noteq> []"
  shows "generate_update_grad T est seed n None (enumerate 0 xs)
     = Some (map (\<lambda>j. \<Sum>i<length xs. direction T est seed i ! j * (xs ! i / real n))
               [0..<total_dimensions est])"
proof -
  from assms obtain x xs' where xs: "xs = x # xs'" by (cases xs) auto
  let ?u = "scale (x / real n) (direction T est seed 0)"
  have len: "length ?u = total_dimensions est" by simp
  have "generate_update_grad T est seed n None (enumerate 0 xs)
          = generate_update_grad T est seed n (Some ?u) (enumerate (Suc 0) xs')"
    by (simp add: xs Let_def direction_def)
  also have "\<dots> = Some (map (\<lambda>j. ?u ! j + (\<Sum>i<length xs'. direction T est seed (Suc 0 + i) ! j
                                                 * (xs' ! i / real n)))
               [0..<total_dimensions est])"
    by (rule generate_update_grad_sum [OF len])
  also have "\<dots> = Some (map (\<lambda>j. \<Sum>i<length xs. direction T est seed i ! j * (xs ! i / real n))
               [0..<total_dimensions est])"
    by (simp add: xs nth_scale sum.lessThan_Suc_shift mult.commute del: sum.lessThan_Suc)
  finally show ?thesis .
qed

text \<open>
  C5.  In whole-vector mode, injection regenerates direction \<open>i\<close> from the key of
  \<open>(seed, i)\<close> for every \<open>i\<close>, accumulates the flat vector
  \<open>\<Sum>i. direction i * dir_grads[i] / num_pert\<close> with \<open>num_pert\<close> the length of the given
  vector, and sets the gradient slot of each parameter to its consecutive
  parameter-sized piece of that vector, in list order, whatever the slot held before.
  (An empty vector of directional gradients fails the assertion and changes nothing.)
\<close>

theorem generate_then_put_grad_averaged_sum:
  assumes "wf_estimator est"
  shows "generate_then_put_grad T est seed dir_grads
     = (if dir_grads = [] then (Inl AssertionError, est)
        else (Inr (),
              est\<lparr>parameters_list :=
                    with_grads (parameters_list est)
                      (pieces
                         (map (\<lambda>j. \<Sum>i<length dir_grads.
                                       direction T est seed i ! j
                                         * (dir_grads ! i / real (length dir_grads)))
                            [0..<total_dimensions est])
                         (map numel (parameters_list est)))\<rparr>))"
proof (cases "dir_grads = []")
  case True
  then show ?thesis by (simp add: generate_then_put_grad_def)
next
  case False
  then show ?thesis
    by (simp add: generate_then_put_grad_def generate_update_grad_start [OF False]
        put_grad_ok [OF assms])
qed


theorem generate_then_put_grad_averaged_sum_witness:
  "wf_estimator (small_est rge_forward False)
   \<and> generate_then_put_grad stream_rng (small_est rge_forward False) 42 [1, 2]
       = (Inr (),
          (small_est rge_forward False)
            \<lparr>parameters_list :=
               [\<lparr>requires_grad = True, shape = [2], data = [1, 2], grad = Some [- (1 / 2), 1]\<rparr>,
                \<lparr>requires_grad = True, shape = [1], data = [3], grad = Some [- (1 / 2)]\<rparr>]\<rparr>)"
proof -
  let ?E = "small_est rge_forward False"
  have wf: "wf_estimator ?E" by (rule wf_small_est)
  have v: "pieces
             (map (\<lambda>j. \<Sum>i<length [1, 2 :: real].
                          direction stream_rng ?E 42 i ! j
                            * ([1, 2] ! i / real (length [1, 2 :: real])))
                [0..<total_dimensions ?E])
             (map numel (parameters_list ?E))
           = [[- (1 / 2), 1], [- (1 / 2)]]"
    by (simp add: instance_defs upt_rec lessThan_Suc numeral_2_eq_2)
  show ?thesis
    using generate_then_put_grad_averaged_sum [OF wf, of stream_rng 42 "[1, 2]"] wf
    unfolding v
    by (simp add: small_est_def two_params_def)
qed

subsection \<open>Paramwise injection\<close>

lemma put_grad_paramwise_loop_first:
  "put_grad_paramwise_loop T 0 c rng ps
     = (Inr (), with_grads ps (map (scale c) (draws T rng (map shape ps))))"
proof (induction ps arbitrary: rng)
  case Nil
  then show ?case by simp
next
  case (Cons p ps)
  show ?case
    using Cons.IH [of "snd (randn T (shape p) rng)"]
    by (simp add: case_prod_unfold)
qed

lemma put_grad_paramwise_loop_next:
  "0 < i \<Longrightarrow> length gs = length ps \<Longrightarrow>
   put_grad_paramwise_loop T i c rng (with_grads ps gs)
     = (Inr (), with_grads ps (map2 (\<lambda>g d. axpy 1 (scale c d) g) gs
                                 (draws T rng (map shape ps))))"
proof (induction ps gs arbitrary: rng rule: list_induct2')
  case (4 p ps g gs)
  then show ?case
    using "4.IH" [of "snd (randn T (shape p) rng)"]
    by (simp add: case_prod_unfold)
qed simp_all

lemma generate_then_put_grad_paramwise_loop_next:
  "0 < a \<Longrightarrow> length gs = length ps \<Longrightarrow>
   \<exists>hs. length hs = length ps
       \<and> generate_then_put_grad_paramwise_loop T seed n (enumerate a xs) (with_grads ps gs)
           = (Inr (), with_grads ps hs)"
proof (induction xs arbitrary: a gs)
  case Nil
  then show ?case by auto
next
  case (Cons x xs)
  let ?hs = "map2 (\<lambda>g d. axpy 1 (scale (x / real n) d) g) gs
               (draws T (get_rng T seed (int a)) (map shape ps))"
  have len: "length ?hs = length ps"
    using Cons.prems by simp
  from Cons.IH [of "Suc a" ?hs] len
  obtain hs where "length hs = length ps"
    and "generate_then_put_grad_paramwise_loop T seed n (enumerate (Suc a) xs) (with_grads ps ?hs)
           = (Inr (), with_grads ps hs)"
    by auto
  then show ?case
    using Cons.prems
    by (auto simp add: put_grad_paramwise_loop_next)
qed

lemma generate_then_put_grad_paramwise_fills:
  assumes "dir_grads \<noteq> []"
  shows "\<exists>hs. length hs = length (parameters_list est)
       \<and> generate_then_put_grad_paramwise T est seed dir_grads
           = (Inr (), est\<lparr>parameters_list := with_grads (parameters_list est) hs\<rparr>)"
proof -
  from assms obtain x xs where xs: "dir_grads = x # xs" by (cases dir_grads) auto
  let ?ps = "parameters_list est"
  let ?gs = "map (scale (x / real (length dir_grads)))
               (draws T (get_rng T seed (int 0)) (map shape ?ps))"
  have len: "length ?gs = length ?ps" by simp
  from generate_then_put_grad_paramwise_loop_next [of "Suc 0" ?gs ?ps T seed
      "length dir_grads" xs] len
  obtain hs where "length hs = length ?ps"
    and "generate_then_put_grad_paramwise_loop T seed (length dir_grads) (enumerate (Suc 0) xs)
           (with_grads ?ps ?gs) = (Inr (), with_grads ?ps hs)"
    by auto
  then show ?thesis
    by (auto simp add: generate_then_put_grad_paramwise_def xs put_grad_paramwise_loop_first)
qed

subsection \<open>The two injection modes agree\<close>

lemma pieces_map2:
  "pieces (map2 f u v) ns = map2 (\<lambda>a b. map2 f a b) (pieces u ns) (pieces v ns)"
  by (induction ns arbitrary: u v) (simp_all add: take_zip drop_zip take_map drop_map)












section \<open>Update and revert\<close>

text \<open>
  C8.  When the optimizer is not an SGD optimizer, or its momentum is not zero,
  \<^verbatim>\<open>revert_model_given_seed_and_grad\<close> raises and leaves the estimator exactly as it
  was: no gradient is injected and no parameter is changed.  The error is the
  exception with the message on SGD without momentum, unless one of the two assertions
  before that check (on \<^verbatim>\<open>sgd_only_no_optim\<close>, on the two lengths) fails first.
\<close>

theorem revert_rejects_unsupported_optimizer:
  assumes "\<not> is_SGD opt \<or> momentum opt \<noteq> 0"
  shows "revert_model_given_seed_and_grad T est opt iteration_seeds iteration_grad_scalar
     = (Inl (if sgd_only_no_optim est
                \<or> length iteration_seeds \<noteq> length iteration_grad_scalar
             then AssertionError
             else Exception ''Revert only supports SGD without momentum''),
        est)"
  using assms by (auto simp add: revert_model_given_seed_and_grad_def)

theorem revert_rejects_unsupported_optimizer_witness:
  "is_SGD momentum_sgd \<and> momentum momentum_sgd \<noteq> 0
   \<and> revert_model_given_seed_and_grad stream_rng (small_est rge_central False) momentum_sgd
         [42] [[5, - 1]]
       = (Inl (Exception ''Revert only supports SGD without momentum''),
          small_est rge_central False)"
proof -
  have h: "\<not> is_SGD momentum_sgd \<or> momentum momentum_sgd \<noteq> 0"
    by (simp add: momentum_sgd_def)
  show ?thesis
    using revert_rejects_unsupported_optimizer [OF h, of stream_rng "small_est rge_central False"
        "[42]" "[[5, - 1]]"]
    by (simp add: small_est_def momentum_sgd_def)
qed

subsection \<open>What injection writes\<close>

lemma map_length_accumulate_step:
  "map length gs = map length ds \<Longrightarrow>
   map length (map2 (\<lambda>g d. axpy 1 (scale c d) g) gs ds) = map length gs"
  by (induction gs ds rule: list_induct2') (simp_all add: axpy_def)

lemma map_length_accumulate_each:
  "map length gs = map prod_list shapes \<Longrightarrow>
   map length (accumulate_each T seed n shapes gs items) = map prod_list shapes"
proof (induction items arbitrary: gs)
  case Nil
  then show ?case by simp
next
  case (Cons it items)
  obtain i x where it: "it = (i, x)" by (cases it)
  have "map length (map2 (\<lambda>g d. axpy 1 (scale (x / real n) d) g) gs
                      (draws T (get_rng T seed (int i)) shapes)) = map prod_list shapes"
    using Cons.prems map_length_accumulate_step [of gs "draws T (get_rng T seed (int i)) shapes"]
    by (simp add: map_length_draws)
  then show ?case
    using Cons.IH by (simp add: it)
qed

lemma map_length_paramwise_grads:
  "items \<noteq> [] \<Longrightarrow> map length (paramwise_grads T seed n shapes items) = map prod_list shapes"
proof (cases items)
  case Nil
  then show "items \<noteq> [] \<Longrightarrow> ?thesis" by simp
next
  case (Cons it rest)
  obtain i x where it: "it = (i, x)" by (cases it)
  have "map length (map (scale (x / real n)) (draws T (get_rng T seed (int i)) shapes))
          = map prod_list shapes"
    by (simp add: map_length_draws comp_def)
  then show ?thesis
    by (simp add: Cons it map_length_accumulate_each del: map_map)
qed

lemma generate_then_put_grad_paramwise_loop_acc:
  "0 < a \<Longrightarrow> length gs = length ps \<Longrightarrow>
   generate_then_put_grad_paramwise_loop T seed n (enumerate a xs) (with_grads ps gs)
     = (Inr (), with_grads ps (accumulate_each T seed n (map shape ps) gs (enumerate a xs)))"
proof (induction xs arbitrary: a gs)
  case Nil
  then show ?case by simp
next
  case (Cons x xs)
  let ?hs = "map2 (\<lambda>g d. axpy 1 (scale (x / real n) d) g) gs
               (draws T (get_rng T seed (int a)) (map shape ps))"
  have len: "length ?hs = length ps"
    using Cons.prems by simp
  show ?case
    using Cons.prems Cons.IH [of "Suc a" ?hs] len
    by (simp add: put_grad_paramwise_loop_next)
qed

lemma generate_then_put_grad_paramwise_grads:
  assumes "dir_grads \<noteq> []"
  shows "generate_then_put_grad_paramwise T est seed dir_grads
     = (Inr (), est\<lparr>parameters_list :=
                     with_grads (parameters_list est)
                       (paramwise_grads T seed (length dir_grads)
                          (map shape (parameters_list est)) (enumerate 0 dir_grads))\<rparr>)"
proof -
  from assms obtain x xs where xs: "dir_grads = x # xs" by (cases dir_grads) auto
  let ?ps = "parameters_list est"
  let ?gs = "map (scale (x / real (length dir_grads)))
               (draws T (get_rng T seed (int 0)) (map shape ?ps))"
  have len: "length ?gs = length ?ps" by simp
  have first: "put_grad_paramwise_loop T 0 (x / real (length dir_grads))
                 (get_rng T seed (int 0)) ?ps = (Inr (), with_grads ?ps ?gs)"
    by (rule put_grad_paramwise_loop_first)
  have rest: "generate_then_put_grad_paramwise_loop T seed (length dir_grads)
                (enumerate (Suc 0) xs) (with_grads ?ps ?gs)
              = (Inr (), with_grads ?ps
                           (accumulate_each T seed (length dir_grads) (map shape ?ps) ?gs
                              (enumerate (Suc 0) xs)))"
    using generate_then_put_grad_paramwise_loop_acc [of "Suc 0" ?gs ?ps T seed
        "length dir_grads" xs] len
    by simp
  show ?thesis
    unfolding generate_then_put_grad_paramwise_def
    using first rest by (simp add: xs)
qed

lemma map_length_pieces:
  "sum_list ns \<le> length v \<Longrightarrow> map length (pieces v ns) = ns"
  by (induction ns arbitrary: v) simp_all

lemma numel_as_shape: "map numel ps = map prod_list (map shape ps)"
  by (induction ps) (simp_all add: numel_def)

lemma inject_ok:
  assumes "wf_estimator est" and "dir_grads \<noteq> []"
  shows "inject T est seed dir_grads
     = (Inr (), est\<lparr>parameters_list :=
                     with_grads (parameters_list est) (injected_grads T est seed dir_grads)\<rparr>)"
proof (cases "paramwise_perturb est")
  case True
  then show ?thesis
    by (simp add: inject_def injected_grads_def generate_then_put_grad_paramwise_grads [OF assms(2)])
next
  case False
  have whole: "generate_then_put_grad T est seed dir_grads
     = (Inr (), est\<lparr>parameters_list :=
                     with_grads (parameters_list est)
                       (pieces (averaged_sum T est seed dir_grads)
                          (map numel (parameters_list est)))\<rparr>)"
    using assms(2)
    by (simp add: generate_then_put_grad_def generate_update_grad_start [OF assms(2)]
        put_grad_ok [OF assms(1)] averaged_sum_def)
  show ?thesis
    using False by (simp add: inject_def injected_grads_def whole)
qed

lemma map_length_injected_grads:
  assumes "wf_estimator est" and "dir_grads \<noteq> []"
  shows "map length (injected_grads T est seed dir_grads) = map numel (parameters_list est)"
proof (cases "paramwise_perturb est")
  case True
  from assms(2) have "enumerate 0 dir_grads \<noteq> []" by (cases dir_grads) simp_all
  then show ?thesis
    using True by (simp add: injected_grads_def map_length_paramwise_grads numel_as_shape
        del: map_map)
next
  case False
  have "sum_list (map numel (parameters_list est)) \<le> length (averaged_sum T est seed dir_grads)"
    using assms(1) by (simp add: averaged_sum_def wf_estimator_def)
  then show ?thesis
    using False by (simp add: injected_grads_def map_length_pieces)
qed

lemma injected_grads_same_shapes:
  assumes "map shape ps' = map shape (parameters_list est)"
  shows "injected_grads T (est\<lparr>parameters_list := ps'\<rparr>) seed dir_grads
           = injected_grads T est seed dir_grads"
proof -
  have "map numel ps' = map numel (parameters_list est)"
    using assms by (simp add: numel_as_shape del: map_map)
  moreover have "averaged_sum T (est\<lparr>parameters_list := ps'\<rparr>) seed dir_grads
                   = averaged_sum T est seed dir_grads"
    by (simp add: averaged_sum_def direction_def generate_perturbation_norm_def)
  ultimately show ?thesis
    using assms by (simp add: injected_grads_def)
qed


subsection \<open>Revert after update\<close>

lemma axpy_cancel: "length g = length y \<Longrightarrow> axpy l g (axpy (- l) g y) = y"
  by (induction g y rule: list_induct2) (simp_all add: axpy_def)

lemma scale_inverse: "c \<noteq> 0 \<Longrightarrow> scale (1 / c) (scale c x) = x"
  by (induction x) (simp_all add: scale_def)

lemma scale_one [simp]: "scale 1 x = x"
  by (induction x) (simp_all add: scale_def)

lemma revert_params_sgd_step:
  assumes "0 \<le> wd" and "1 - l * wd \<noteq> 0"
  shows "map length gs = map length (map data ps) \<Longrightarrow>
         revert_params l wd (sgd_step l wd (with_grads ps gs)) = (Inr (), with_grads ps gs)"
proof (induction ps arbitrary: gs)
  case Nil
  then show ?case by (simp add: sgd_step_def)
next
  case (Cons p ps)
  from Cons.prems obtain g gs' where gs: "gs = g # gs'" by (cases gs) auto
  from Cons.prems have len: "length g = length (data p)"
    and rest: "map length gs' = map length (map data ps)"
    by (simp_all add: gs)
  have tail: "revert_params l wd (sgd_step l wd (with_grads ps gs')) = (Inr (), with_grads ps gs')"
    using Cons.IH [OF rest] .
  have tail': "revert_params l wd
                 (map (\<lambda>p. case grad p of None \<Rightarrow> p
                            | Some g \<Rightarrow> p\<lparr>data := axpy (- l) g (scale (1 - l * wd) (data p))\<rparr>)
                    (with_grads ps gs')) = (Inr (), with_grads ps gs')"
    using tail by (simp add: sgd_step_def)
  have undo: "axpy l g (axpy (- l) g (scale (1 - l * wd) (data p))) = scale (1 - l * wd) (data p)"
    using len by (simp add: axpy_cancel)
  show ?case
  proof (cases "wd > 0")
    case True
    then show ?thesis
      using assms(2) by (simp add: gs sgd_step_def tail' undo scale_inverse)
  next
    case False
    with assms(1) have wd0: "wd = 0" by simp
    show ?thesis
      using tail' [unfolded wd0] len
      by (simp add: wd0 gs sgd_step_def axpy_cancel)
  qed
qed

lemma map_shape_sgd_step [simp]: "map shape (sgd_step l wd qs) = map shape qs"
  by (induction qs) (simp_all add: sgd_step_def split: option.split)

lemma with_grads_sgd_step_same:
  "length gs = length ps \<Longrightarrow>
   with_grads (sgd_step l wd (with_grads ps gs)) gs = sgd_step l wd (with_grads ps gs)"
  by (induction ps gs rule: list_induct2') (simp_all add: sgd_step_def)

lemma data_sgd_step_with_grads:
  "length gs = length ps \<Longrightarrow>
   map data (sgd_step l wd (with_grads ps gs))
     = map2 (\<lambda>x g. axpy (- l) g (scale (1 - l * wd) x)) (map data ps) gs"
  by (induction ps gs rule: list_induct2') (simp_all add: sgd_step_def)

lemma wf_after_sgd_step:
  assumes "wf_estimator est" and "map length gs = map numel (parameters_list est)"
  shows "wf_estimator (est\<lparr>parameters_list := sgd_step l wd (with_grads (parameters_list est) gs)\<rparr>)"
proof -
  have "list_all (\<lambda>p. length (data p) = numel p) ps \<Longrightarrow> map length gs = map numel ps \<Longrightarrow>
        list_all (\<lambda>p. length (data p) = numel p) (sgd_step l wd (with_grads ps gs))
        \<and> map numel (sgd_step l wd (with_grads ps gs)) = map numel ps" for ps
  proof (induction ps arbitrary: gs)
    case Nil
    then show ?case by (simp add: sgd_step_def)
  next
    case (Cons p ps)
    from Cons.prems obtain g gs' where gs: "gs = g # gs'" by (cases gs) auto
    from Cons.prems Cons.IH [of gs'] show ?case
      by (simp add: gs sgd_step_def axpy_def scale_def numel_def)
  qed
  from this [of "parameters_list est"] assms show ?thesis
    by (simp add: wf_estimator_def)
qed

lemma update_one_step:
  assumes wf: "wf_estimator est" and no: "\<not> sgd_only_no_optim est" and ne: "dir_grads \<noteq> []"
  shows "update_model_given_seed_and_grad T est (SGD l wd) [seed] [dir_grads]
     = (Inr (), est\<lparr>parameters_list :=
                     sgd_step l wd (with_grads (parameters_list est)
                                      (injected_grads T est seed dir_grads))\<rparr>)"
  using no
  by (simp add: update_model_given_seed_and_grad_def inject_ok [OF wf ne] SGD_def)

lemma revert_one_step:
  assumes wf: "wf_estimator est" and no: "\<not> sgd_only_no_optim est" and ne: "dir_grads \<noteq> []"
    and wd: "0 \<le> wd" and inv: "1 - l * wd \<noteq> 0"
  shows "revert_model_given_seed_and_grad T
           (est\<lparr>parameters_list :=
                  sgd_step l wd (with_grads (parameters_list est)
                                   (injected_grads T est seed dir_grads))\<rparr>)
           (SGD l wd) [seed] [dir_grads]
     = (Inr (), est\<lparr>parameters_list :=
                     with_grads (parameters_list est) (injected_grads T est seed dir_grads)\<rparr>)"
proof -
  let ?ps = "parameters_list est"
  let ?hs = "injected_grads T est seed dir_grads"
  let ?ps1 = "sgd_step l wd (with_grads ?ps ?hs)"
  let ?est1 = "est\<lparr>parameters_list := ?ps1\<rparr>"
  have lens: "map length ?hs = map numel ?ps"
    by (rule map_length_injected_grads [OF wf ne])
  have len: "length ?hs = length ?ps"
    using map_eq_imp_length_eq [OF lens] by simp
  have data: "map length ?hs = map length (map data ?ps)"
    using wf lens by (simp add: wf_estimator_def list_all_iff)
  have wf1: "wf_estimator ?est1"
    by (rule wf_after_sgd_step [OF wf lens])
  have sh: "map shape ?ps1 = map shape ?ps"
    using len by (simp add: map_shape_with_grads)
  have same: "injected_grads T ?est1 seed dir_grads = ?hs"
    by (rule injected_grads_same_shapes [OF sh])
  have inj: "inject T ?est1 seed dir_grads = (Inr (), ?est1)"
    using inject_ok [OF wf1 ne, of T seed] len
    by (simp add: same with_grads_sgd_step_same)
  have rp: "revert_params l wd ?ps1 = (Inr (), with_grads ?ps ?hs)"
    by (rule revert_params_sgd_step [OF wd inv data])
  show ?thesis
    using no
    by (simp add: revert_model_given_seed_and_grad_def SGD_def inj rp)
qed

text \<open>
  C1.  Let the optimizer be SGD with zero momentum, learning rate \<open>l\<close> and weight decay
  \<open>wd\<close>, whose step sets each parameter \<open>p\<close> to \<open>p * (1 - l * wd) - l * g\<close> for the
  injected gradient \<open>g\<close>.  For a recorded step \<open>(seed, dir_grads)\<close>, the update injects
  the gradient and takes that step, and revert on the updated model, with the same seed
  and directional gradients, injects the same gradient again (it does not depend on the
  parameter values), adds \<open>l * g\<close> and, when \<open>wd > 0\<close>, multiplies by \<open>1 / (1 - l * wd)\<close>:
  both return normally and every parameter is back at its value from before the update.
  This is for \<open>1 - l * wd \<noteq> 0\<close> (otherwise the factor is a division by zero, which
  Python raises), \<open>wd \<ge> 0\<close> and a non-empty vector of directional gradients.
\<close>

theorem revert_after_update_restores:
  assumes "wf_estimator est" and "\<not> sgd_only_no_optim est" and "dir_grads \<noteq> []"
    and "0 \<le> wd" and "1 - l * wd \<noteq> 0"
    and "paramwise_perturb est \<longrightarrow> list_all (\<lambda>p. shape p \<noteq> []) (parameters_list est)"
  shows "fst (update_model_given_seed_and_grad T est (SGD l wd) [seed] [dir_grads]) = Inr ()
       \<and> values_of (snd (update_model_given_seed_and_grad T est (SGD l wd) [seed] [dir_grads]))
           = map2 (\<lambda>x g. map2 (\<lambda>a b. a * (1 - l * wd) - l * b) x g) (values_of est)
               (injected_grads T est seed dir_grads)
       \<and> fst (revert_model_given_seed_and_grad T
                (snd (update_model_given_seed_and_grad T est (SGD l wd) [seed] [dir_grads]))
                (SGD l wd) [seed] [dir_grads]) = Inr ()
       \<and> values_of (snd (revert_model_given_seed_and_grad T
                (snd (update_model_given_seed_and_grad T est (SGD l wd) [seed] [dir_grads]))
                (SGD l wd) [seed] [dir_grads])) = values_of est"
proof -
  let ?hs = "injected_grads T est seed dir_grads"
  have lens: "map length ?hs = map numel (parameters_list est)"
    by (rule map_length_injected_grads [OF assms(1) assms(3)])
  have len: "length ?hs = length (parameters_list est)"
    using map_eq_imp_length_eq [OF lens] by simp
  have upd: "update_model_given_seed_and_grad T est (SGD l wd) [seed] [dir_grads]
     = (Inr (), est\<lparr>parameters_list :=
                     sgd_step l wd (with_grads (parameters_list est) ?hs)\<rparr>)"
    by (rule update_one_step [OF assms(1,2,3)])
  have rev: "revert_model_given_seed_and_grad T
           (est\<lparr>parameters_list := sgd_step l wd (with_grads (parameters_list est) ?hs)\<rparr>)
           (SGD l wd) [seed] [dir_grads]
     = (Inr (), est\<lparr>parameters_list := with_grads (parameters_list est) ?hs\<rparr>)"
    by (rule revert_one_step [OF assms(1,2,3,4,5)])
  have step: "map2 (\<lambda>x g. axpy (- l) g (scale (1 - l * wd) x)) xs gs
                = map2 (\<lambda>x g. map2 (\<lambda>a b. a * (1 - l * wd) - l * b) x g) xs gs"
    for xs gs :: "real list list"
    by (rule arg_cong [where f = "\<lambda>f. map2 f xs gs"])
       (simp add: fun_eq_iff axpy_def scale_def zip_map1 case_prod_unfold mult.commute)
  show ?thesis
    unfolding upd
    using len
    by (simp add: rev values_of_def data_sgd_step_with_grads map_data_with_grads step)
qed


theorem revert_after_update_restores_witness:
  "wf_estimator (small_est rge_central False)
   \<and> \<not> sgd_only_no_optim (small_est rge_central False)
   \<and> \<not> paramwise_perturb (small_est rge_central False)
   \<and> (0::real) \<le> 1 / 2 \<and> (1::real) - 1 / 10 * (1 / 2) \<noteq> 0
   \<and> fst (update_model_given_seed_and_grad stream_rng (small_est rge_central False)
              (SGD (1 / 10) (1 / 2)) [42] [[5, - 1]]) = Inr ()
   \<and> values_of (snd (update_model_given_seed_and_grad stream_rng (small_est rge_central False)
                         (SGD (1 / 10) (1 / 2)) [42] [[5, - 1]]))
       = [[6 / 5, 39 / 20], [51 / 20]]
   \<and> fst (revert_model_given_seed_and_grad stream_rng
              (snd (update_model_given_seed_and_grad stream_rng (small_est rge_central False)
                      (SGD (1 / 10) (1 / 2)) [42] [[5, - 1]]))
              (SGD (1 / 10) (1 / 2)) [42] [[5, - 1]]) = Inr ()
   \<and> values_of (snd (revert_model_given_seed_and_grad stream_rng
              (snd (update_model_given_seed_and_grad stream_rng (small_est rge_central False)
                      (SGD (1 / 10) (1 / 2)) [42] [[5, - 1]]))
              (SGD (1 / 10) (1 / 2)) [42] [[5, - 1]])) = [[1, 2], [3]]"
proof -
  let ?E = "small_est rge_central False"
  have wf: "wf_estimator ?E" by (rule wf_small_est)
  have no: "\<not> sgd_only_no_optim ?E" and pw: "\<not> paramwise_perturb ?E"
    by (simp_all add: small_est_def)
  have ne: "[5, - 1 :: real] \<noteq> []" by simp
  have wd: "(0::real) \<le> 1 / 2" and inv: "(1::real) - 1 / 10 * (1 / 2) \<noteq> 0" by simp_all
  have sh: "paramwise_perturb ?E \<longrightarrow> list_all (\<lambda>p. shape p \<noteq> []) (parameters_list ?E)"
    using pw by simp
  have vals: "values_of ?E = [[1, 2], [3]]"
    by (simp add: values_of_def small_est_def two_params_def)
  have grads: "injected_grads stream_rng ?E 42 [5, - 1] = [[- (5 / 2), - (1 / 2)], [3]]"
    by (simp add: injected_grads_def averaged_sum_def instance_defs upt_rec lessThan_Suc
        numeral_2_eq_2)
  have stepped: "map2 (\<lambda>x g. map2 (\<lambda>a b. a * (1 - 1 / 10 * (1 / 2)) - 1 / 10 * b) x g)
                   [[1, 2], [3 :: real]] [[- (5 / 2), - (1 / 2)], [3]]
                 = [[6 / 5, 39 / 20], [51 / 20]]"
    by simp
  from revert_after_update_restores [OF wf no ne wd inv sh, of stream_rng 42]
  show ?thesis
    unfolding vals grads stepped using wf no pw by simp
qed

text \<open>
  Without the condition on \<open>1 - l * wd\<close> the law fails: with learning rate 1 and weight
  decay 1 the update sets every parameter to \<open>- g\<close>, and revert adds \<open>g\<close> to the first
  parameter and then raises on the division \<open>1 / (1 - 1 * 1)\<close>; the parameters are left
  at \<open>[0, 0]\<close> and \<open>[- 3]\<close>, not at their values \<open>[1, 2]\<close> and \<open>[3]\<close> from before the
  update.
\<close>

theorem revert_after_update_counterexample:
  "revert_model_given_seed_and_grad stream_rng
     (snd (update_model_given_seed_and_grad stream_rng (small_est rge_central False)
             (SGD 1 1) [42] [[5, - 1]]))
     (SGD 1 1) [42] [[5, - 1]]
   = (Inl ZeroDivisionError,
      (small_est rge_central False)
        \<lparr>parameters_list :=
           [\<lparr>requires_grad = True, shape = [2], data = [0, 0],
              grad = Some [- (5 / 2), - (1 / 2)]\<rparr>,
            \<lparr>requires_grad = True, shape = [1], data = [- 3], grad = Some [3]\<rparr>]\<rparr>)"
proof -
  let ?E = "small_est rge_central False"
  have wf: "wf_estimator ?E" by (rule wf_small_est)
  have no: "\<not> sgd_only_no_optim ?E" by (simp add: small_est_def)
  have ne: "[5, - 1 :: real] \<noteq> []" by simp
  have grads: "injected_grads stream_rng ?E 42 [5, - 1] = [[- (5 / 2), - (1 / 2)], [3]]"
    by (simp add: injected_grads_def averaged_sum_def instance_defs upt_rec lessThan_Suc
        numeral_2_eq_2)
  let ?ps1 = "[\<lparr>requires_grad = True, shape = [2], data = [5 / 2, 1 / 2],
                 grad = Some [- (5 / 2), - (1 / 2)]\<rparr>,
               \<lparr>requires_grad = True, shape = [1], data = [- 3 :: real], grad = Some [3]\<rparr>]"
  have upd: "snd (update_model_given_seed_and_grad stream_rng ?E (SGD 1 1) [42] [[5, - 1]])
               = ?E\<lparr>parameters_list := ?ps1\<rparr>"
    unfolding update_one_step [OF wf no ne] grads
    by (simp add: sgd_step_def small_est_def two_params_def axpy_def scale_def)
  have wf1: "wf_estimator (?E\<lparr>parameters_list := ?ps1\<rparr>)"
    by (simp add: wf_estimator_def small_est_def numel_def)
  have same: "injected_grads stream_rng (?E\<lparr>parameters_list := ?ps1\<rparr>) 42 [5, - 1]
                = [[- (5 / 2), - (1 / 2)], [3]]"
    using injected_grads_same_shapes [of ?ps1 ?E stream_rng 42 "[5, - 1]"] grads
    by (simp add: small_est_def two_params_def)
  have inj: "inject stream_rng (?E\<lparr>parameters_list := ?ps1\<rparr>) 42 [5, - 1]
               = (Inr (), ?E\<lparr>parameters_list := ?ps1\<rparr>)"
    unfolding inject_ok [OF wf1 ne] same by (simp add: small_est_def)
  have flag: "\<not> sgd_only_no_optim (?E\<lparr>parameters_list := ?ps1\<rparr>)"
    by (simp add: small_est_def)
  show ?thesis
    unfolding upd
    using flag
    by (simp add: revert_model_given_seed_and_grad_def SGD_def inj axpy_def del: One_nat_def)
qed

section \<open>What \<^verbatim>\<open>compute_grad\<close> writes\<close>

lemma generate_then_put_grad_paramwise_returns:
  "fst (generate_then_put_grad_paramwise T est seed dir_grads) = Inr ()"
proof (cases "dir_grads = []")
  case True
  then show ?thesis by (simp add: generate_then_put_grad_paramwise_def)
next
  case False
  then show ?thesis by (simp add: generate_then_put_grad_paramwise_grads)
qed

lemma zo_grad_estimate_paramwise_result:
  assumes "wf_estimator est"
  shows "\<exists>cl'. zo_grad_estimate_paramwise T loss_fn bi lb seed est cl
           = (Inr (map (directional_gradient_paramwise T loss_fn bi lb seed est)
                     [0..<num_pert est]), est, cl')"
  by (cases "grad_estimate_method est")
    (simp_all add: zo_grad_estimate_paramwise_central [OF assms]
      zo_grad_estimate_paramwise_forward [OF assms])

lemma zo_grad_estimate_result:
  assumes "wf_estimator est" and "0 < num_pert est"
  shows "\<exists>g cl'. zo_grad_estimate T loss_fn bi lb seed est cl
           = (Inr (g, map (directional_gradient T loss_fn bi lb seed est) [0..<num_pert est]),
              est, cl')"
proof (cases "grad_estimate_method est")
  case rge_central
  from zo_grad_estimate_central [OF assms(1) rge_central assms(2), of T loss_fn bi lb seed cl]
  show ?thesis by blast
next
  case rge_forward
  from zo_grad_estimate_forward [OF assms(1) rge_forward assms(2), of T loss_fn bi lb seed cl]
  show ?thesis by blast
qed

text \<open>
  C10.  In whole-vector mode, \<^verbatim>\<open>compute_grad\<close> with \<^verbatim>\<open>is_put=False\<close> leaves the
  estimator as it was, so every gradient slot is unchanged, and returns the directional
  gradients (with \<open>num_pert = 0\<close> the assertion of \<^verbatim>\<open>_zo_grad_estimate\<close> fails
  instead, the slots still unchanged).  In paramwise mode the result does not depend on
  \<^verbatim>\<open>is_put\<close>: the call returns the directional gradients and always leaves the state
  that paramwise injection of these gradients produces, in which, for
  \<open>num_pert > 0\<close>, every gradient slot is filled.
\<close>

theorem compute_grad_is_put:
  assumes "wf_estimator est"
  shows "(\<not> paramwise_perturb est \<longrightarrow>
            fst (snd (compute_grad T loss_fn bi lb seed False est cl)) = est
          \<and> fst (compute_grad T loss_fn bi lb seed False est cl)
              = (if num_pert est = 0 then Inl AssertionError
                 else Inr (map (directional_gradient T loss_fn bi lb seed est)
                             [0..<num_pert est])))
       \<and> (paramwise_perturb est \<and> list_all (\<lambda>p. shape p \<noteq> []) (parameters_list est) \<longrightarrow>
            compute_grad T loss_fn bi lb seed is_put est cl
              = compute_grad T loss_fn bi lb seed (\<not> is_put) est cl
          \<and> fst (compute_grad T loss_fn bi lb seed is_put est cl)
              = Inr (map (directional_gradient_paramwise T loss_fn bi lb seed est)
                       [0..<num_pert est])
          \<and> (Inr (), fst (snd (compute_grad T loss_fn bi lb seed is_put est cl)))
              = generate_then_put_grad_paramwise T est seed
                  (map (directional_gradient_paramwise T loss_fn bi lb seed est)
                     [0..<num_pert est])
          \<and> (0 < num_pert est \<longrightarrow>
               list_all (\<lambda>p. grad p \<noteq> None)
                 (parameters_list
                    (fst (snd (compute_grad T loss_fn bi lb seed is_put est cl))))))"
proof (intro conjI impI)
  assume whole: "\<not> paramwise_perturb est"
  show "fst (snd (compute_grad T loss_fn bi lb seed False est cl)) = est"
  proof (cases "num_pert est = 0")
    case True
    then show ?thesis using whole by (simp add: compute_grad_def zo_grad_estimate_none)
  next
    case False
    then have n: "0 < num_pert est" by simp
    from zo_grad_estimate_result [OF assms n, of T loss_fn bi lb seed cl]
    show ?thesis using whole by (auto simp add: compute_grad_def)
  qed
  show "fst (compute_grad T loss_fn bi lb seed False est cl)
          = (if num_pert est = 0 then Inl AssertionError
             else Inr (map (directional_gradient T loss_fn bi lb seed est) [0..<num_pert est]))"
  proof (cases "num_pert est = 0")
    case True
    then show ?thesis using whole by (simp add: compute_grad_def zo_grad_estimate_none)
  next
    case False
    then have n: "0 < num_pert est" by simp
    from zo_grad_estimate_result [OF assms n, of T loss_fn bi lb seed cl]
    show ?thesis using whole False by (auto simp add: compute_grad_def)
  qed
next
  assume pw: "paramwise_perturb est \<and> list_all (\<lambda>p. shape p \<noteq> []) (parameters_list est)"
  let ?dgs = "map (directional_gradient_paramwise T loss_fn bi lb seed est) [0..<num_pert est]"
  show "compute_grad T loss_fn bi lb seed is_put est cl
          = compute_grad T loss_fn bi lb seed (\<not> is_put) est cl"
    using pw by (simp add: compute_grad_def)
  from zo_grad_estimate_paramwise_result [OF assms, of T loss_fn bi lb seed cl]
  obtain cl' where
    est: "zo_grad_estimate_paramwise T loss_fn bi lb seed est cl = (Inr ?dgs, est, cl')"
    by blast
  obtain est' where
    inj: "generate_then_put_grad_paramwise T est seed ?dgs = (Inr (), est')"
    using generate_then_put_grad_paramwise_returns [of T est seed ?dgs]
    by (cases "generate_then_put_grad_paramwise T est seed ?dgs") simp
  have res: "compute_grad T loss_fn bi lb seed is_put est cl = (Inr ?dgs, est', cl')"
    using pw by (simp add: compute_grad_def est inj)
  show "fst (compute_grad T loss_fn bi lb seed is_put est cl) = Inr ?dgs"
    by (simp add: res)
  show "(Inr (), fst (snd (compute_grad T loss_fn bi lb seed is_put est cl)))
          = generate_then_put_grad_paramwise T est seed ?dgs"
    by (simp add: res inj)
  show "list_all (\<lambda>p. grad p \<noteq> None)
          (parameters_list (fst (snd (compute_grad T loss_fn bi lb seed is_put est cl))))"
    if n: "0 < num_pert est"
  proof -
    from n have ne: "?dgs \<noteq> []" by simp
    from generate_then_put_grad_paramwise_fills [OF ne, of est T seed]
    obtain hs where len: "length hs = length (parameters_list est)"
      and "generate_then_put_grad_paramwise T est seed ?dgs
             = (Inr (), est\<lparr>parameters_list := with_grads (parameters_list est) hs\<rparr>)"
      by blast
    with inj have "est' = est\<lparr>parameters_list := with_grads (parameters_list est) hs\<rparr>"
      by simp
    then show ?thesis
      unfolding res using list_all_grad_with_grads [OF len] by simp
  qed
qed

theorem compute_grad_is_put_witness:
  "wf_estimator (small_est rge_forward False)
   \<and> \<not> paramwise_perturb (small_est rge_forward False)
   \<and> 0 < num_pert (small_est rge_forward False)
   \<and> compute_grad stream_rng sum_loss () () 42 False (small_est rge_forward False) []
       = (Inr [5, - 1], small_est rge_forward False,
          snd (snd (compute_grad stream_rng sum_loss () () 42 False
                      (small_est rge_forward False) [])))
   \<and> wf_estimator (small_est rge_forward True)
   \<and> paramwise_perturb (small_est rge_forward True)
   \<and> 0 < num_pert (small_est rge_forward True)
   \<and> list_all (\<lambda>p. shape p \<noteq> []) (parameters_list (small_est rge_forward True))
   \<and> compute_grad stream_rng sum_loss () () 42 False (small_est rge_forward True) []
       = compute_grad stream_rng sum_loss () () 42 True (small_est rge_forward True) []
   \<and> fst (compute_grad stream_rng sum_loss () () 42 False (small_est rge_forward True) [])
       = Inr [5, - 1]
   \<and> fst (snd (compute_grad stream_rng sum_loss () () 42 False (small_est rge_forward True) []))
       = (small_est rge_forward True)
            \<lparr>parameters_list :=
               [\<lparr>requires_grad = True, shape = [2], data = [1, 2],
                  grad = Some [- (5 / 2), - (1 / 2)]\<rparr>,
                \<lparr>requires_grad = True, shape = [1], data = [3], grad = Some [3]\<rparr>]\<rparr>"
proof -
  let ?W = "small_est rge_forward False"
  let ?P = "small_est rge_forward True"
  have facts: "\<not> paramwise_perturb ?W" "0 < num_pert ?W" "paramwise_perturb ?P" "0 < num_pert ?P"
    by (simp_all add: small_est_def)
  have dgw: "map (directional_gradient stream_rng sum_loss () () 42 ?W) [0..<num_pert ?W]
               = [5, - 1]"
    by (simp add: directional_gradient_def plus_point_def instance_defs upt_rec)
  have dgp: "map (directional_gradient_paramwise stream_rng sum_loss () () 42 ?P)
               [0..<num_pert ?P] = [5, - 1]"
    by (simp add: directional_gradient_paramwise_def plus_point_paramwise_def instance_defs
        upt_rec)
  have inj: "generate_then_put_grad_paramwise stream_rng ?P 42 [5, - 1]
       = (Inr (),
          ?P\<lparr>parameters_list :=
               [\<lparr>requires_grad = True, shape = [2], data = [1, 2],
                  grad = Some [- (5 / 2), - (1 / 2)]\<rparr>,
                \<lparr>requires_grad = True, shape = [1], data = [3], grad = Some [3]\<rparr>]\<rparr>)"
    by (simp add: generate_then_put_grad_paramwise_def instance_defs upt_rec scale_def axpy_def)
  from compute_grad_is_put [OF wf_small_est, where m1 = rge_forward and pw1 = False
        and T = stream_rng and loss_fn = sum_loss and bi = "()" and lb = "()" and seed = 42
        and cl = "[]" and is_put = False] facts
  have w: "compute_grad stream_rng sum_loss () () 42 False ?W []
       = (Inr [5, - 1], ?W,
          snd (snd (compute_grad stream_rng sum_loss () () 42 False ?W [])))"
    unfolding dgw by (simp add: prod_eq_iff)
  from compute_grad_is_put [OF wf_small_est, where m1 = rge_forward and pw1 = True
        and T = stream_rng and loss_fn = sum_loss and bi = "()" and lb = "()" and seed = 42
        and cl = "[]" and is_put = False] facts shapes_small_est [of rge_forward True]
  have p1: "compute_grad stream_rng sum_loss () () 42 False ?P []
             = compute_grad stream_rng sum_loss () () 42 (\<not> False) ?P []"
    and p2: "fst (compute_grad stream_rng sum_loss () () 42 False ?P [])
             = Inr (map (directional_gradient_paramwise stream_rng sum_loss () () 42 ?P)
                      [0..<num_pert ?P])"
    and p3: "(Inr (), fst (snd (compute_grad stream_rng sum_loss () () 42 False ?P [])))
             = generate_then_put_grad_paramwise stream_rng ?P 42
                 (map (directional_gradient_paramwise stream_rng sum_loss () () 42 ?P)
                    [0..<num_pert ?P])"
    by blast+
  have p: "compute_grad stream_rng sum_loss () () 42 False ?P []
             = compute_grad stream_rng sum_loss () () 42 True ?P []"
    "fst (compute_grad stream_rng sum_loss () () 42 False ?P []) = Inr [5, - 1]"
    "fst (snd (compute_grad stream_rng sum_loss () () 42 False ?P []))
       = ?P\<lparr>parameters_list :=
               [\<lparr>requires_grad = True, shape = [2], data = [1, 2],
                  grad = Some [- (5 / 2), - (1 / 2)]\<rparr>,
                \<lparr>requires_grad = True, shape = [1], data = [3], grad = Some [3]\<rparr>]\<rparr>"
  proof -
    show "compute_grad stream_rng sum_loss () () 42 False ?P []
             = compute_grad stream_rng sum_loss () () 42 True ?P []"
      using p1 by simp
    show "fst (compute_grad stream_rng sum_loss () () 42 False ?P []) = Inr [5, - 1]"
      using p2 unfolding dgp .
    show "fst (snd (compute_grad stream_rng sum_loss () () 42 False ?P []))
       = ?P\<lparr>parameters_list :=
               [\<lparr>requires_grad = True, shape = [2], data = [1, 2],
                  grad = Some [- (5 / 2), - (1 / 2)]\<rparr>,
                \<lparr>requires_grad = True, shape = [1], data = [3], grad = Some [3]\<rparr>]\<rparr>"
      using p3 unfolding dgp inj by (rule Pair_inject) 
  qed
  from w p facts wf_small_est [of rge_forward False] wf_small_est [of rge_forward True]
    shapes_small_est [of rge_forward True]
  show ?thesis by blast
qed

end
